theory Spec2Isabelle
  imports Complex_Main "HOL-Library.Multiset" "HOL-Library.List_Lexorder" "HOL-Library.Char_ord"
    "HOL-Library.Word"
begin

section \<open>JavaScript string helpers used by the screens\<close>

text \<open>
  The paths and URLs of the screens are modelled as HOL strings. A string that may be
  \<open>null\<close> or \<open>undefined\<close> is an option; \<open>None\<close> and the empty string are the two
  falsy values of that type.
\<close>

definition truthy :: "'a list option \<Rightarrow> bool" where
  "truthy v = (case v of None \<Rightarrow> False | Some s \<Rightarrow> s \<noteq> [])"

text \<open>\<open>s.startsWith(p)\<close>.\<close>

definition startsWith :: "string \<Rightarrow> string \<Rightarrow> bool" where
  "startsWith s p = (take (length p) s = p)"

text \<open>\<open>s.includes(p)\<close>: \<open>p\<close> occurs somewhere in \<open>s\<close>.\<close>

fun includesStr :: "string \<Rightarrow> string \<Rightarrow> bool" where
  "includesStr [] p = (p = [])"
| "includesStr (c # cs) p = (startsWith (c # cs) p \<or> includesStr cs p)"

text \<open>\<open>s.replace(p, '')\<close> with a string pattern: the first occurrence of \<open>p\<close> is removed.\<close>

fun removeFirst :: "string \<Rightarrow> string \<Rightarrow> string" where
  "removeFirst [] p = []"
| "removeFirst (c # cs) p =
     (if startsWith (c # cs) p then drop (length p) (c # cs) else c # removeFirst cs p)"

text \<open>\<open>s.replace(/^\/+/g, '')\<close>: every leading slash is dropped.\<close>

definition stripLeadingSlashes :: "string \<Rightarrow> string" where
  "stripLeadingSlashes s = dropWhile (\<lambda>c. c = CHR ''/'') s"

text \<open>\<open>s.split('/')[0]\<close> and \<open>s.split('/').pop()\<close>.\<close>

definition firstSegment :: "string \<Rightarrow> string" where
  "firstSegment s = takeWhile (\<lambda>c. c \<noteq> CHR ''/'') s"

definition lastSegment :: "string \<Rightarrow> string" where
  "lastSegment s = rev (takeWhile (\<lambda>c. c \<noteq> CHR ''/'') (rev s))"

text \<open>
  The test \<open>/^https?:\/\//i.test(s)\<close>. The \<open>i\<close> flag folds the ASCII letters only: no
  other code unit canonicalises to one of \<open>H\<close>, \<open>T\<close>, \<open>P\<close>, \<open>S\<close>.
\<close>

definition asciiLower :: "char \<Rightarrow> char" where
  "asciiLower c =
     (let n = (of_char c :: nat) in if 65 \<le> n \<and> n \<le> 90 then char_of (n + 32) else c)"

definition isAbsoluteUrl :: "string \<Rightarrow> bool" where
  "isAbsoluteUrl s =
     (let l = map asciiLower s in take 7 l = ''http://'' \<or> take 8 l = ''https://'')"

section \<open>Theme mode\<close>

text \<open>The updater passed to \<open>setThemeMode\<close> by \<open>toggleTheme\<close>.\<close>

definition toggleTheme :: "string \<Rightarrow> string" where
  "toggleTheme current =
     (if current = ''light'' then ''dark''
      else if current = ''dark'' then ''system''
      else ''light'')"

section \<open>Image URL resolution\<close>

text \<open>
  \<open>getImageUrl\<close> of the user-details screen. The API base is a parameter: its default
  \<open>API_CONFIG.BASE_URL\<close> comes from the environment.
\<close>

definition getImageUrl_UserDetails :: "string option \<Rightarrow> string \<Rightarrow> bool \<Rightarrow> string option" where
  "getImageUrl_UserDetails imagePath apiBase isUserAvatar =
     (case imagePath of
        None \<Rightarrow> None
      | Some p \<Rightarrow>
          if p = [] then None
          else if isAbsoluteUrl p then Some p
          else
            let cleaned = stripLeadingSlashes p in
            if isUserAvatar \<or> startsWith cleaned ''avatar/'' then
              if CHR ''/'' \<notin> set cleaned then Some (apiBase @ ''/api/users/'' @ cleaned @ ''/avatar'')
              else Some (apiBase @ ''/storage/'' @ cleaned)
            else Some (apiBase @ ''/storage/'' @ cleaned))"

text \<open>\<open>getImageUrl\<close> of the post-details screen.\<close>

definition getImageUrl_PostDetails :: "string option \<Rightarrow> string \<Rightarrow> bool \<Rightarrow> string option" where
  "getImageUrl_PostDetails imagePath apiBase isUserAvatar =
     (case imagePath of
        None \<Rightarrow> None
      | Some p \<Rightarrow>
          if p = [] then None
          else if isAbsoluteUrl p then Some p
          else
            let cleaned = stripLeadingSlashes p in
            if isUserAvatar \<or> startsWith cleaned ''avatar/'' then
              if CHR ''/'' \<notin> set cleaned then Some (apiBase @ ''/api/users/'' @ cleaned @ ''/avatar'')
              else Some (apiBase @ ''/storage/'' @ cleaned)
            else if startsWith cleaned ''storage/garbage_post_images/'' then
              Some (apiBase @ ''/'' @ cleaned)
            else if startsWith cleaned ''garbage_post_images/'' then
              Some (apiBase @ ''/storage/'' @ cleaned)
            else Some (apiBase @ ''/storage/'' @ cleaned))"

text \<open>\<open>getImageUrl\<close> of the home screen; it has no avatar flag.\<close>

definition getImageUrl_Home :: "string option \<Rightarrow> string \<Rightarrow> string option" where
  "getImageUrl_Home imagePath apiBase =
     (case imagePath of
        None \<Rightarrow> None
      | Some p \<Rightarrow>
          if p = [] then None
          else if isAbsoluteUrl p then Some p
          else
            let cleaned = stripLeadingSlashes p in
            if startsWith cleaned ''storage/garbage_post_images/'' then
              Some (apiBase @ ''/'' @ cleaned)
            else if startsWith cleaned ''garbage_post_images/'' then
              Some (apiBase @ ''/storage/'' @ cleaned)
            else if startsWith cleaned ''avatar/'' then
              Some (apiBase @ ''/storage/'' @ cleaned)
            else if CHR ''/'' \<notin> set cleaned then
              Some (apiBase @ ''/storage/avatar/'' @ cleaned)
            else Some (apiBase @ ''/'' @ cleaned))"

section \<open>Image loading with fallback\<close>

text \<open>
  A display name is a JavaScript string, a list of UTF-16 code units. \<open>fromAscii\<close>
  writes an ASCII literal as such a string.
\<close>

type_synonym jsstring = "16 word list"

definition fromAscii :: "string \<Rightarrow> jsstring" where
  "fromAscii s = map (\<lambda>c. of_nat (of_char c)) s"

text \<open>
  \<open>encodeURIComponent\<close>. An unreserved character stays. Any other code unit starts a
  code point (itself, or the pair of a lead and a trail surrogate), which is written as
  the percent-escaped bytes of its UTF-8 encoding. A surrogate without its partner
  raises \<open>URIError\<close>: the result is \<open>None\<close>.
\<close>

definition isUnreserved :: "char \<Rightarrow> bool" where
  "isUnreserved c =
     (c \<in> set ''ABCDEFGHIJKLMNOPQRSTUVWXYZabcdefghijklmnopqrstuvwxyz0123456789-_.!~*()''
      \<or> c = char_of (39 :: nat))"

definition percentByte :: "nat \<Rightarrow> string" where
  "percentByte n = [CHR ''%'', ''0123456789ABCDEF'' ! (n div 16), ''0123456789ABCDEF'' ! (n mod 16)]"

definition utf8Bytes :: "nat \<Rightarrow> nat list" where
  "utf8Bytes cp =
     (if cp < 128 then [cp]
      else if cp < 2048 then [192 + cp div 64, 128 + cp mod 64]
      else if cp < 65536 then [224 + cp div 4096, 128 + cp div 64 mod 64, 128 + cp mod 64]
      else [240 + cp div 262144, 128 + cp div 4096 mod 64, 128 + cp div 64 mod 64,
            128 + cp mod 64])"

definition escapeCodePoint :: "nat \<Rightarrow> string" where
  "escapeCodePoint cp = concat (map percentByte (utf8Bytes cp))"

definition isLeadSurrogate :: "nat \<Rightarrow> bool" where
  "isLeadSurrogate n = (55296 \<le> n \<and> n \<le> 56319)"

definition isTrailSurrogate :: "nat \<Rightarrow> bool" where
  "isTrailSurrogate n = (56320 \<le> n \<and> n \<le> 57343)"

fun encodeUnits :: "nat list \<Rightarrow> string option" where
  "encodeUnits [] = Some []"
| "encodeUnits [c] =
     (if c < 128 \<and> isUnreserved (char_of c) then Some [char_of c]
      else if isLeadSurrogate c \<or> isTrailSurrogate c then None
      else Some (escapeCodePoint c))"
| "encodeUnits (c # d # ds) =
     (if c < 128 \<and> isUnreserved (char_of c) then
        map_option ((#) (char_of c)) (encodeUnits (d # ds))
      else if isLeadSurrogate c then
        if isTrailSurrogate d then
          map_option ((@) (escapeCodePoint (65536 + (c - 55296) * 1024 + (d - 56320))))
            (encodeUnits ds)
        else None
      else if isTrailSurrogate c then None
      else map_option ((@) (escapeCodePoint c)) (encodeUnits (d # ds)))"

definition encodeURIComponent :: "jsstring \<Rightarrow> string option" where
  "encodeURIComponent s = encodeUnits (map unat s)"

text \<open>
  \<open>String.prototype.toUpperCase\<close> is a parameter of the definitions that call it. On ASCII
  strings it is the following function, which the closed examples use.
\<close>

definition toUpperCaseAscii :: "jsstring \<Rightarrow> jsstring" where
  "toUpperCaseAscii s = map (\<lambda>u. if 97 \<le> unat u \<and> unat u \<le> 122 then u - 32 else u) s"

definition STORAGE_PATHS :: "string list" where
  "STORAGE_PATHS = [''/storage/'', ''/'', ''/public/storage/'']"

text \<open>
  The state of one \<open>useImageWithFallback\<close> hook of the user-details and post-details
  screens: the \<open>uri\<close> of \<open>imageSource\<close> (\<open>None\<close> for a \<open>null\<close> source), the
  \<open>imageError\<close> flag and the \<open>retryCount\<close> ref.
\<close>

record hook_state =
  imageSource :: "string option"
  imageError :: bool
  retryCount :: nat

text \<open>
  A call either returns or is left by a \<open>URIError\<close>; in both cases the argument is the
  state with the updates made so far.
\<close>

datatype 'a outcome = Returned 'a | Threw 'a

fun stateOf :: "'a outcome \<Rightarrow> 'a" where
  "stateOf (Returned s) = s"
| "stateOf (Threw s) = s"

text \<open>
  \<open>getInitial\<close>: \<open>'U'\<close> for a falsy name, else \<open>userName.charAt(0).toUpperCase()\<close>,
  where \<open>charAt(0)\<close> is the first code unit.
\<close>

definition getInitial :: "(jsstring \<Rightarrow> jsstring) \<Rightarrow> jsstring option \<Rightarrow> jsstring" where
  "getInitial toUpperCase userName =
     (case userName of
        None \<Rightarrow> fromAscii ''U''
      | Some n \<Rightarrow> if n = [] then fromAscii ''U'' else toUpperCase (take 1 n))"

text \<open>The fallback URL around the encoded initial.\<close>

definition fallbackUrl :: "string \<Rightarrow> string" where
  "fallbackUrl encoded =
     ''https://ui-avatars.com/api/?name='' @ encoded @ ''&background=random&color=fff&size=100''"

text \<open>
  \<open>useFallbackAvatar\<close> sets the error flag, then builds the URL, then sets the source:
  when \<open>encodeURIComponent\<close> throws, the source is not set.
\<close>

definition useFallbackAvatar ::
  "(jsstring \<Rightarrow> jsstring) \<Rightarrow> jsstring option \<Rightarrow> hook_state \<Rightarrow> hook_state outcome" where
  "useFallbackAvatar toUpperCase userName st =
     (let st1 = st\<lparr>imageError := True\<rparr> in
      case encodeURIComponent (getInitial toUpperCase userName) of
        None \<Rightarrow> Threw st1
      | Some encoded \<Rightarrow> Returned (st1\<lparr>imageSource := Some (fallbackUrl encoded)\<rparr>))"

text \<open>
  \<open>handleImageError\<close> of the user-details screen; the copy in the post-details screen
  differs from it by two \<open>console.log\<close> calls only. \<open>base\<close> is \<open>API_CONFIG.BASE_URL\<close>.
  The arguments \<open>initialImagePath\<close>, \<open>userName\<close> and \<open>isUserAvatar\<close> are the values
  held by the memoised callback: \<open>userName\<close> is the name in the \<open>useFallbackAvatar\<close>
  that the callback refers to.
\<close>

definition retryUrl :: "string \<Rightarrow> bool \<Rightarrow> nat \<Rightarrow> string \<Rightarrow> string" where
  "retryUrl base isUserAvatar pathIndex cleaned =
     (let storagePath = STORAGE_PATHS ! pathIndex in
      if isUserAvatar then
        if pathIndex = 0 then base @ ''/storage/avatar/'' @ removeFirst cleaned ''avatar/''
        else if pathIndex = 1 then
          base @ ''/api/users/'' @ firstSegment (removeFirst cleaned ''avatar/'') @ ''/avatar''
        else base @ storagePath @ cleaned
      else base @ storagePath @ cleaned)"

definition handleImageError ::
  "(jsstring \<Rightarrow> jsstring) \<Rightarrow> string \<Rightarrow> string option \<Rightarrow> jsstring option \<Rightarrow> bool
     \<Rightarrow> hook_state \<Rightarrow> hook_state outcome" where
  "handleImageError toUpperCase base initialImagePath userName isUserAvatar st =
     (case initialImagePath of
        None \<Rightarrow> useFallbackAvatar toUpperCase userName st
      | Some p \<Rightarrow>
          if retryCount st < length STORAGE_PATHS \<and> p \<noteq> [] then
            let pathIndex = retryCount st;
                st1 = st\<lparr>retryCount := retryCount st + 1\<rparr>;
                cleaned = stripLeadingSlashes p
            in if pathIndex < length STORAGE_PATHS then
                 Returned (st1\<lparr>imageSource := Some (retryUrl base isUserAvatar pathIndex cleaned)\<rparr>)
               else useFallbackAvatar toUpperCase userName st1
          else useFallbackAvatar toUpperCase userName st)"

text \<open>The state that one reported failure leaves.\<close>

definition afterFailure ::
  "(jsstring \<Rightarrow> jsstring) \<Rightarrow> string \<Rightarrow> string option \<Rightarrow> jsstring option \<Rightarrow> bool
     \<Rightarrow> hook_state \<Rightarrow> hook_state" where
  "afterFailure toUpperCase base initialImagePath userName isUserAvatar st =
     stateOf (handleImageError toUpperCase base initialImagePath userName isUserAvatar st)"

text \<open>
  The state of the user-details hook after the mount effect: it starts from a \<open>null\<close>
  source and keeps it for a falsy path.
\<close>

definition useImageWithFallback_UserDetails ::
  "string \<Rightarrow> string option \<Rightarrow> bool \<Rightarrow> hook_state" where
  "useImageWithFallback_UserDetails base initialImagePath isUserAvatar =
     (if truthy initialImagePath then
        \<lparr>imageSource = getImageUrl_UserDetails initialImagePath base isUserAvatar,
         imageError = False, retryCount = 0\<rparr>
      else \<lparr>imageSource = None, imageError = False, retryCount = 0\<rparr>)"

text \<open>
  The user-details hook over its renders. Its effect and its \<open>handleImageError\<close> both
  depend on \<open>initialImagePath\<close> and \<open>isUserAvatar\<close> only, so a render that changes
  neither runs no effect and keeps the callback, with the name that callback was created
  with (\<open>udHandlerName\<close>); a render that changes one of them runs the effect and creates
  the callback anew. In the post-details hook the dependencies of the callback include
  \<open>useFallbackAvatar\<close>, which changes with the name: there \<open>handleImageError\<close> always
  holds the name of the latest render.
\<close>

record hook_props =
  propPath :: "string option"
  propName :: "jsstring option"
  propAvatar :: bool

record ud_hook =
  udState :: hook_state
  udProps :: hook_props
  udHandlerName :: "jsstring option"

definition mount_UserDetails :: "string \<Rightarrow> hook_props \<Rightarrow> ud_hook" where
  "mount_UserDetails base props =
     \<lparr>udState = useImageWithFallback_UserDetails base (propPath props) (propAvatar props),
      udProps = props,
      udHandlerName = propName props\<rparr>"

definition rerender_UserDetails :: "string \<Rightarrow> hook_props \<Rightarrow> ud_hook \<Rightarrow> ud_hook" where
  "rerender_UserDetails base props h =
     (if propPath props = propPath (udProps h) \<and> propAvatar props = propAvatar (udProps h) then
        h\<lparr>udProps := props\<rparr>
      else
        \<lparr>udState =
           (if truthy (propPath props) then
              \<lparr>imageSource = getImageUrl_UserDetails (propPath props) base (propAvatar props),
               imageError = False, retryCount = 0\<rparr>
            else (udState h)\<lparr>imageSource := None\<rparr>),
         udProps = props,
         udHandlerName = propName props\<rparr>)"

definition onError_UserDetails ::
  "(jsstring \<Rightarrow> jsstring) \<Rightarrow> string \<Rightarrow> ud_hook \<Rightarrow> ud_hook outcome" where
  "onError_UserDetails toUpperCase base h =
     (case handleImageError toUpperCase base (propPath (udProps h)) (udHandlerName h)
             (propAvatar (udProps h)) (udState h) of
        Returned s \<Rightarrow> Returned (h\<lparr>udState := s\<rparr>)
      | Threw s \<Rightarrow> Threw (h\<lparr>udState := s\<rparr>))"

text \<open>
  The hook of the home screen takes the resolved URL and the initial. It keeps no retry
  cursor: the first storage path that does not occur in the original URL is tried with
  the file name of that URL.
\<close>

record home_hook_state =
  homeImageSource :: "string option"
  homeImageError :: bool

definition useFallbackAvatar_Home :: "string option \<Rightarrow> home_hook_state \<Rightarrow> home_hook_state" where
  "useFallbackAvatar_Home userInitial st =
     st\<lparr>homeImageError := True,
        homeImageSource := Some (''https://ui-avatars.com/api/?name=''
          @ (case userInitial of None \<Rightarrow> ''U'' | Some i \<Rightarrow> if i = [] then ''U'' else i)
          @ ''&background=random&color=fff&size=100'')\<rparr>"

fun alternativeUrl :: "string \<Rightarrow> string \<Rightarrow> string list \<Rightarrow> string option" where
  "alternativeUrl base originalUrl [] = None"
| "alternativeUrl base originalUrl (path # rest) =
     (if includesStr originalUrl path then alternativeUrl base originalUrl rest
      else let filename = lastSegment originalUrl in
           if filename \<noteq> [] then Some (base @ path @ filename)
           else alternativeUrl base originalUrl rest)"

definition handleImageError_Home ::
  "string \<Rightarrow> string option \<Rightarrow> string option \<Rightarrow> home_hook_state \<Rightarrow> home_hook_state" where
  "handleImageError_Home base initialUrl userInitial st =
     (if homeImageError st then useFallbackAvatar_Home userInitial st
      else case initialUrl of
        None \<Rightarrow> useFallbackAvatar_Home userInitial st
      | Some originalUrl \<Rightarrow>
          if originalUrl = [] then useFallbackAvatar_Home userInitial st
          else case alternativeUrl base originalUrl STORAGE_PATHS of
                 Some url \<Rightarrow> st\<lparr>homeImageSource := Some url\<rparr>
               | None \<Rightarrow> useFallbackAvatar_Home userInitial st)"

definition useImageWithFallback_Home :: "string option \<Rightarrow> home_hook_state" where
  "useImageWithFallback_Home initialUrl =
     \<lparr>homeImageSource = initialUrl, homeImageError = False\<rparr>"

section \<open>Persistent key-value store\<close>

text \<open>
  \<open>AsyncStorage\<close> is a map from keys to strings. The operations below are the ones of
  the repository that call \<open>AsyncStorage\<close>: the theme provider (load on mount, save
  effect on every change of the mode), the token and saved-votes loaders, and
  \<open>handleVote\<close> of the polls screen.
\<close>

type_synonym async_storage = "string \<rightharpoonup> string"

datatype 'a http_result = HttpFailed string | HttpOk 'a

record vote_entry =
  optionId :: "string option"
  voteId :: "string option"
  message :: "string option"
  voteType :: "string option"

record app_state =
  themeMode :: string
  userVotes :: "string \<rightharpoonup> vote_entry"
  token :: "string option"
  storage :: async_storage

definition LOCAL_VOTES_KEY :: string where
  "LOCAL_VOTES_KEY = ''user_poll_votes''"

text \<open>\<open>a || b\<close> on strings.\<close>

definition orElse :: "string \<Rightarrow> string \<Rightarrow> string" where
  "orElse a b = (if a = [] then b else a)"

text \<open>
  The save effect of the theme provider: \<open>setItem\<close> is called unless the mode is
  \<open>system\<close>; \<open>ok\<close> tells whether the call succeeds (a failure is caught and logged).
\<close>

definition saveThemePreference :: "bool \<Rightarrow> app_state \<Rightarrow> app_state" where
  "saveThemePreference ok st =
     (if themeMode st \<noteq> ''system'' then
        if ok then st\<lparr>storage := (storage st)(''theme_preference'' \<mapsto> themeMode st)\<rparr> else st
      else st)"

definition loadThemePreference :: "bool \<Rightarrow> app_state \<Rightarrow> app_state" where
  "loadThemePreference ok st =
     (case storage st ''theme_preference'' of
        None \<Rightarrow> st
      | Some savedTheme \<Rightarrow>
          if savedTheme \<noteq> [] then saveThemePreference ok (st\<lparr>themeMode := savedTheme\<rparr>)
          else st)"

definition loadToken :: "app_state \<Rightarrow> app_state" where
  "loadToken st = st\<lparr>token := storage st ''auth_token''\<rparr>"

text \<open>\<open>JSON.parse\<close> is a parameter; \<open>None\<close> stands for a thrown \<open>SyntaxError\<close>.\<close>

definition loadSavedVotes ::
  "(string \<Rightarrow> (string \<rightharpoonup> vote_entry) option) \<Rightarrow> app_state \<Rightarrow> app_state" where
  "loadSavedVotes parse st =
     (case storage st LOCAL_VOTES_KEY of
        None \<Rightarrow> st
      | Some savedVotes \<Rightarrow>
          if savedVotes = [] then st
          else case parse savedVotes of
                 None \<Rightarrow> st
               | Some votes \<Rightarrow> st\<lparr>userVotes := votes\<rparr>)"

text \<open>The constant \<open>token\<close> of \<open>handleVote\<close>: \<open>const token = null\<close>.\<close>

definition handleVote_token :: "string option" where
  "handleVote_token = None"

definition emptyEntry :: vote_entry where
  "emptyEntry = \<lparr>optionId = None, voteId = None, message = None, voteType = None\<rparr>"

definition prevEntry :: "(string \<rightharpoonup> vote_entry) \<Rightarrow> string \<Rightarrow> vote_entry" where
  "prevEntry votes pollId = (case votes pollId of None \<Rightarrow> emptyEntry | Some e \<Rightarrow> e)"

text \<open>
  \<open>handleVote\<close>. \<open>t\<close> is the translation function and \<open>stringify\<close> is
  \<open>JSON.stringify\<close>. \<open>resp\<close> is the outcome of the one request the handler sends (the
  \<open>DELETE\<close> of an existing vote, or the \<open>POST\<close> that answers with the new vote id).
\<close>

definition handleVote ::
  "(string \<Rightarrow> string) \<Rightarrow> ((string \<rightharpoonup> vote_entry) \<Rightarrow> string) \<Rightarrow> string \<Rightarrow> string
     \<Rightarrow> string option http_result \<Rightarrow> app_state \<Rightarrow> app_state" where
  "handleVote t stringify pollId optId resp st =
     (case handleVote_token of
        None \<Rightarrow>
          st\<lparr>userVotes := (userVotes st)(pollId \<mapsto>
                (prevEntry (userVotes st) pollId)
                  \<lparr>message := Some (orElse (t ''auth_required'') ''You must be signed in to vote''),
                   voteType := Some ''error''\<rparr>)\<rparr>
      | Some tk \<Rightarrow>
          (case voteId (prevEntry (userVotes st) pollId) of
             Some vid \<Rightarrow>
               (case resp of
                  HttpOk r \<Rightarrow>
                    st\<lparr>userVotes := (userVotes st)(pollId \<mapsto>
                          emptyEntry\<lparr>message := Some (orElse (t ''vote_removed'') ''Vote removed''),
                                     voteType := Some ''success''\<rparr>),
                       storage := (storage st)(LOCAL_VOTES_KEY \<mapsto>
                          stringify ((userVotes st)(pollId := None)))\<rparr>
                | HttpFailed err \<Rightarrow>
                    st\<lparr>userVotes := (userVotes st)(pollId \<mapsto>
                          (prevEntry (userVotes st) pollId)
                            \<lparr>message := Some (orElse (t ''vote_remove_failed'') ''Failed to remove vote''),
                             voteType := Some ''error''\<rparr>)\<rparr>)
           | None \<Rightarrow>
               (case resp of
                  HttpOk newId \<Rightarrow>
                    (let next = (userVotes st)(pollId \<mapsto>
                           \<lparr>optionId = Some optId, voteId = newId,
                            message = Some (orElse (t ''vote_submitted'') ''Vote submitted''),
                            voteType = Some ''success''\<rparr>)
                     in st\<lparr>userVotes := next,
                           storage := (storage st)(LOCAL_VOTES_KEY \<mapsto> stringify next)\<rparr>)
                | HttpFailed err \<Rightarrow>
                    st\<lparr>userVotes := (userVotes st)(pollId \<mapsto>
                          (prevEntry (userVotes st) pollId)
                            \<lparr>message := Some (orElse (t ''vote_submit_failed'') ''Failed to submit vote''),
                             voteType := Some ''error''\<rparr>)\<rparr>)))"

datatype app_op =
    ToggleTheme bool
  | LoadThemePreference bool
  | LoadToken
  | LoadSavedVotes
  | HandleVote string string "string option http_result"

text \<open>One step of the application on the store-related state.\<close>

fun app_step ::
  "(string \<Rightarrow> string) \<Rightarrow> ((string \<rightharpoonup> vote_entry) \<Rightarrow> string)
     \<Rightarrow> (string \<Rightarrow> (string \<rightharpoonup> vote_entry) option) \<Rightarrow> app_op \<Rightarrow> app_state \<Rightarrow> app_state" where
  "app_step t stringify parse (ToggleTheme ok) st =
     saveThemePreference ok (st\<lparr>themeMode := toggleTheme (themeMode st)\<rparr>)"
| "app_step t stringify parse (LoadThemePreference ok) st = loadThemePreference ok st"
| "app_step t stringify parse LoadToken st = loadToken st"
| "app_step t stringify parse LoadSavedVotes st = loadSavedVotes parse st"
| "app_step t stringify parse (HandleVote pollId optId resp) st =
     handleVote t stringify pollId optId resp st"

definition allowedKeys :: "string set" where
  "allowedKeys = {''theme_preference'', ''auth_token''}"

section \<open>Screen data fetches\<close>

text \<open>
  The state of a screen that loads one piece of data: the data itself (the events list,
  the profile object, the map posts), the \<open>loading\<close> and \<open>refreshing\<close> flags, the
  error message, and the lines written with \<open>console.error\<close>.
\<close>

record 'd screen_state =
  loaded :: 'd
  loading :: bool
  error :: string
  refreshing :: bool
  console :: "string list"

text \<open>
  What \<open>response.data?.events\<close> can be: falsy, an array, or a truthy value that is not
  an array.
\<close>

datatype 'e events_payload = EventsMissing | EventsArray "'e list" | EventsNotArray

definition fetchEvents ::
  "(string \<Rightarrow> string) \<Rightarrow> 'e events_payload http_result \<Rightarrow> 'e list screen_state
     \<Rightarrow> 'e list screen_state" where
  "fetchEvents t resp st =
     (let st1 = st\<lparr>error := [], loading := (if \<not> refreshing st then True else loading st)\<rparr>;
          st2 = (case resp of
                   HttpOk payload \<Rightarrow>
                     st1\<lparr>loaded := (case payload of EventsArray es \<Rightarrow> es | _ \<Rightarrow> [])\<rparr>
                 | HttpFailed err \<Rightarrow>
                     st1\<lparr>console := console st1 @ [''Failed to fetch events: '' @ err],
                         error := t ''events_load_error''\<rparr>)
      in st2\<lparr>loading := False, refreshing := False\<rparr>)"

text \<open>
  The profile response: \<open>response.data?.user\<close> when truthy, else \<open>response.data\<close>.
\<close>

record 'p profile_payload =
  userField :: "'p option"
  body :: "'p option"

definition fetchUserProfile ::
  "(string \<Rightarrow> string) \<Rightarrow> 'p profile_payload http_result \<Rightarrow> 'p option screen_state
     \<Rightarrow> 'p option screen_state" where
  "fetchUserProfile t resp st =
     (let st1 = st\<lparr>error := [], loading := (if \<not> refreshing st then True else loading st)\<rparr>;
          st2 = (case resp of
                   HttpOk payload \<Rightarrow>
                     st1\<lparr>loaded := (case userField payload of Some u \<Rightarrow> Some u | None \<Rightarrow> body payload)\<rparr>
                 | HttpFailed err \<Rightarrow>
                     st1\<lparr>console := console st1 @ [''Failed to fetch user profile: '' @ err],
                         error := t ''failed_to_load_profile''\<rparr>)
      in st2\<lparr>loading := False, refreshing := False\<rparr>)"

text \<open>
  \<open>fetchPostDetails\<close> of the post-details screen. The payload is the post data found in
  the response, \<open>None\<close> when it is falsy or has no \<open>id\<close>. \<open>favResp\<close> is the outcome of
  the favorites lookup: \<open>Some b\<close> when it answers and the scan gives \<open>b\<close>, \<open>None\<close> when
  it throws.
\<close>

record 'p post_details_state =
  post :: "'p option"
  pdLoading :: bool
  pdRefreshing :: bool
  isFavorited :: bool
  pdConsole :: "string list"

definition isWhiteSpace :: "char \<Rightarrow> bool" where
  "isWhiteSpace c = ((of_char c :: nat) \<in> {9, 10, 11, 12, 13, 32, 160})"

definition trim :: "string \<Rightarrow> string" where
  "trim s = rev (dropWhile isWhiteSpace (rev (dropWhile isWhiteSpace s)))"

definition fetchPostDetails ::
  "string option \<Rightarrow> string option \<Rightarrow> 'p option http_result \<Rightarrow> bool option
     \<Rightarrow> 'p post_details_state \<Rightarrow> 'p post_details_state" where
  "fetchPostDetails postId tok resp favResp st =
     (if \<not> truthy postId then
        st\<lparr>pdConsole := pdConsole st @ [''PostDetailsScreen: No postId provided''],
           post := None, pdLoading := False, pdRefreshing := False\<rparr>
      else
        let normalizedId = trim (case postId of Some i \<Rightarrow> i | None \<Rightarrow> []) in
        if normalizedId = [] \<or> normalizedId = ''undefined'' \<or> normalizedId = ''null'' then
          st\<lparr>pdConsole := pdConsole st @ [''PostDetailsScreen: Invalid postId format''],
             post := None, pdLoading := False, pdRefreshing := False\<rparr>
        else
          let st1 = st\<lparr>pdLoading := True\<rparr>;
              st2 = (case resp of
                       HttpFailed err \<Rightarrow>
                         st1\<lparr>pdConsole := pdConsole st1
                               @ [''PostDetailsScreen: Failed to fetch post details: '' @ err],
                             post := None\<rparr>
                     | HttpOk None \<Rightarrow>
                         st1\<lparr>pdConsole := pdConsole st1
                               @ [''PostDetailsScreen: Invalid post data received''],
                             post := None\<rparr>
                     | HttpOk (Some postData) \<Rightarrow>
                         (let st3 = st1\<lparr>post := Some postData\<rparr> in
                          if truthy tok then
                            (case favResp of
                               Some isFav \<Rightarrow> st3\<lparr>isFavorited := isFav\<rparr>
                             | None \<Rightarrow>
                                 st3\<lparr>pdConsole := pdConsole st3 @ [''Failed to check favorite status'']\<rparr>)
                          else st3))
          in st2\<lparr>pdLoading := False, pdRefreshing := False\<rparr>)"

section \<open>Map posts\<close>

text \<open>
  A JavaScript number is \<open>NaN\<close>, an infinity or a finite value (both zeros are
  \<open>Finite 0\<close>). Only \<open>NaN\<close> and zero are falsy.
\<close>

datatype jsnum = NaN | Infinity bool | Finite real

datatype jsval = JUndefined | JNull | JBool bool | JNumber jsnum | JString string | JObject

fun truthyNum :: "jsnum \<Rightarrow> bool" where
  "truthyNum NaN = False"
| "truthyNum (Infinity s) = True"
| "truthyNum (Finite x) = (x \<noteq> 0)"

fun truthyVal :: "jsval \<Rightarrow> bool" where
  "truthyVal JUndefined = False"
| "truthyVal JNull = False"
| "truthyVal (JBool b) = b"
| "truthyVal (JNumber n) = truthyNum n"
| "truthyVal (JString s) = (s \<noteq> [])"
| "truthyVal JObject = True"

text \<open>
  A post of the response, as far as the coordinates go. \<open>imagesOk\<close> is false when
  \<open>post.images\<close> is a truthy value without a \<open>find\<close> method, which makes the processing
  of the post throw.
\<close>

record 'a raw_post =
  latitude :: jsval
  lat :: jsval
  longitude :: jsval
  lng :: jsval
  imagesOk :: bool
  rest :: 'a

record 'a map_post =
  postLat :: "jsnum option"
  postLng :: "jsnum option"
  origin :: "'a raw_post"

text \<open>
  The coordinate parse: the first field if it is truthy and its \<open>parseFloat\<close> is not
  \<open>NaN\<close>, else the second field under the same test, else \<open>null\<close>. \<open>parseFloat\<close> is a
  parameter.
\<close>

definition parseCoordinate :: "(jsval \<Rightarrow> jsnum) \<Rightarrow> jsval \<Rightarrow> jsval \<Rightarrow> jsnum option" where
  "parseCoordinate parseFloat long short =
     (if truthyVal long \<and> parseFloat long \<noteq> NaN then Some (parseFloat long)
      else if truthyVal short \<and> parseFloat short \<noteq> NaN then Some (parseFloat short)
      else None)"

definition processPost :: "(jsval \<Rightarrow> jsnum) \<Rightarrow> 'a raw_post \<Rightarrow> 'a map_post" where
  "processPost parseFloat p =
     (if imagesOk p then
        \<lparr>postLat = parseCoordinate parseFloat (latitude p) (lat p),
         postLng = parseCoordinate parseFloat (longitude p) (lng p),
         origin = p\<rparr>
      else \<lparr>postLat = None, postLng = None, origin = p\<rparr>)"

definition hasCoordinates :: "'a map_post \<Rightarrow> bool" where
  "hasCoordinates p =
     ((case postLat p of None \<Rightarrow> False | Some a \<Rightarrow> truthyNum a)
      \<and> (case postLng p of None \<Rightarrow> False | Some b \<Rightarrow> truthyNum b))"

text \<open>
  The shapes of \<open>response.data\<close> that \<open>fetchPosts\<close> tells apart. An element of the
  array is \<open>None\<close> when it is \<open>null\<close>: reading a property of it throws, also in the
  handler of the inner \<open>try\<close>, so the exception reaches the outer \<open>catch\<close>.
\<close>

datatype 'a posts_payload =
    GarbagePostsData "'a raw_post option list option"
  | DirectArray "'a raw_post option list"
  | DataArray "'a raw_post option list"
  | Unexpected

definition responseData :: "'a posts_payload \<Rightarrow> 'a raw_post option list" where
  "responseData payload =
     (case payload of
        GarbagePostsData d \<Rightarrow> (case d of Some xs \<Rightarrow> xs | None \<Rightarrow> [])
      | DirectArray xs \<Rightarrow> xs
      | DataArray xs \<Rightarrow> xs
      | Unexpected \<Rightarrow> [])"

fun processAll :: "(jsval \<Rightarrow> jsnum) \<Rightarrow> 'a raw_post option list \<Rightarrow> 'a map_post list option" where
  "processAll parseFloat [] = Some []"
| "processAll parseFloat (None # xs) = None"
| "processAll parseFloat (Some p # xs) =
     (case processAll parseFloat xs of
        None \<Rightarrow> None
      | Some ps \<Rightarrow> Some (processPost parseFloat p # ps))"

definition fetchPosts ::
  "(string \<Rightarrow> string) \<Rightarrow> (jsval \<Rightarrow> jsnum) \<Rightarrow> 'a posts_payload http_result
     \<Rightarrow> 'a map_post list screen_state \<Rightarrow> 'a map_post list screen_state" where
  "fetchPosts t parseFloat resp st =
     (let st1 = st\<lparr>error := [], loading := (if \<not> refreshing st then True else loading st)\<rparr>;
          st2 = (case resp of
                   HttpFailed err \<Rightarrow>
                     st1\<lparr>console := console st1 @ [''Failed to fetch posts: '' @ err],
                         error := t ''failed_to_load_map''\<rparr>
                 | HttpOk payload \<Rightarrow>
                     (case processAll parseFloat (responseData payload) of
                        None \<Rightarrow>
                          st1\<lparr>console := console st1 @ [''Failed to fetch posts: TypeError''],
                              error := t ''failed_to_load_map''\<rparr>
                      | Some processed \<Rightarrow>
                          st1\<lparr>loaded := filter hasCoordinates processed\<rparr>))
      in st2\<lparr>loading := False, refreshing := False\<rparr>)"

text \<open>\<open>parseFloat\<close> on the values of the closed examples.\<close>

definition parseFloatSample :: "jsval \<Rightarrow> jsnum" where
  "parseFloatSample v =
     (case v of
        JNumber n \<Rightarrow> n
      | JString s \<Rightarrow>
          if s = ''42'' then Finite 42
          else if s = ''21'' then Finite 21
          else if s = ''0'' then Finite 0
          else NaN
      | _ \<Rightarrow> NaN)"

text \<open>
  Three posts of a response for the closed examples: one with both coordinates, one
  whose latitude parses to zero, and one whose processing throws.
\<close>

definition samplePosts :: "unit raw_post option list" where
  "samplePosts =
     [Some \<lparr>latitude = JString ''42'', lat = JUndefined, longitude = JString ''21'',
            lng = JUndefined, imagesOk = True, rest = ()\<rparr>,
      Some \<lparr>latitude = JString ''0'', lat = JUndefined, longitude = JString ''21'',
            lng = JUndefined, imagesOk = True, rest = ()\<rparr>,
      Some \<lparr>latitude = JString ''42'', lat = JUndefined, longitude = JString ''21'',
            lng = JUndefined, imagesOk = False, rest = ()\<rparr>]"

definition sampleMapState :: "unit map_post list screen_state" where
  "sampleMapState =
     \<lparr>loaded = [\<lparr>postLat = Some (Finite 42), postLng = Some (Finite 21),
                  origin = \<lparr>latitude = JString ''42'', lat = JUndefined,
                            longitude = JString ''21'', lng = JUndefined,
                            imagesOk = True, rest = ()\<rparr>\<rparr>],
      loading = False, error = [], refreshing = True, console = []\<rparr>"

section \<open>Client-side sort of the events\<close>

text \<open>
  An event, as far as the sort reads it: \<open>date\<close> is the time value of
  \<open>new Date(e.date)\<close> in milliseconds, \<open>None\<close> for an invalid date; \<open>title\<close> is
  \<open>None\<close> when the title is missing.
\<close>

record 'a event =
  date :: "int option"
  title :: "string option"
  details :: 'a

text \<open>\<open>new Date(a.date) - new Date(b.date)\<close>; \<open>None\<close> is \<open>NaN\<close>.\<close>

definition dateDiff :: "'a event \<Rightarrow> 'a event \<Rightarrow> int option" where
  "dateDiff a b =
     (case date a of
        None \<Rightarrow> None
      | Some x \<Rightarrow> (case date b of None \<Rightarrow> None | Some y \<Rightarrow> Some (x - y)))"

definition titleOrEmpty :: "'a event \<Rightarrow> string" where
  "titleOrEmpty e = (case title e of None \<Rightarrow> [] | Some s \<Rightarrow> s)"

text \<open>
  \<open>Array.prototype.sort\<close> with a comparator: a stable sort that puts \<open>b\<close> before \<open>a\<close>
  only when the comparator's result on \<open>(a, b)\<close> is positive; \<open>NaN\<close> counts as zero. It
  is modelled as the stable insertion sort.
\<close>

definition positive :: "int option \<Rightarrow> bool" where
  "positive r = (case r of None \<Rightarrow> False | Some v \<Rightarrow> 0 < v)"

fun insertBy :: "('a \<Rightarrow> 'a \<Rightarrow> int option) \<Rightarrow> 'a \<Rightarrow> 'a list \<Rightarrow> 'a list" where
  "insertBy cmp x [] = [x]"
| "insertBy cmp x (y # ys) = (if positive (cmp x y) then y # insertBy cmp x ys else x # y # ys)"

definition arraySort :: "('a \<Rightarrow> 'a \<Rightarrow> int option) \<Rightarrow> 'a list \<Rightarrow> 'a list" where
  "arraySort cmp xs = foldr (insertBy cmp) xs []"

text \<open>
  Arrays live in a heap, addressed by their index in it, so that the copy made by
  \<open>[...events]\<close> and the state array are different objects. \<open>sortedEvents\<close> returns the
  new heap and the address of its result. \<open>localeCompare\<close> is a parameter.
\<close>

text \<open>
  A comparison of strings by code units, standing for \<open>localeCompare\<close> in the closed
  examples.
\<close>

definition codeUnitCompare :: "string \<Rightarrow> string \<Rightarrow> int" where
  "codeUnitCompare a b = (if a = b then 0 else if a < b then - 1 else 1)"

text \<open>
  A comparator is consistent when "not after" is transitive and any two strings are
  comparable.
\<close>

definition consistentComparator :: "(string \<Rightarrow> string \<Rightarrow> int) \<Rightarrow> bool" where
  "consistentComparator cmp =
     ((\<forall>a b c. cmp a b \<le> 0 \<and> cmp b c \<le> 0 \<longrightarrow> cmp a c \<le> 0)
      \<and> (\<forall>a b. 0 < cmp a b \<longrightarrow> cmp b a \<le> 0))"

text \<open>Three events for the closed examples.\<close>

definition sampleEvents :: "unit event list" where
  "sampleEvents =
     [\<lparr>date = Some 30, title = Some ''clean-up'', details = ()\<rparr>,
      \<lparr>date = Some 10, title = Some ''Bazaar'', details = ()\<rparr>,
      \<lparr>date = Some 20, title = None, details = ()\<rparr>]"

type_synonym 'a heap = "'a list list"

definition alloc :: "'a heap \<Rightarrow> 'a list \<Rightarrow> 'a heap \<times> nat" where
  "alloc h xs = (h @ [xs], length h)"

definition sortInPlace :: "('a \<Rightarrow> 'a \<Rightarrow> int option) \<Rightarrow> 'a heap \<Rightarrow> nat \<Rightarrow> 'a heap \<times> nat" where
  "sortInPlace cmp h a = (h[a := arraySort cmp (h ! a)], a)"

definition sortedEvents ::
  "(string \<Rightarrow> string \<Rightarrow> int) \<Rightarrow> 'a event heap \<Rightarrow> nat \<Rightarrow> string \<Rightarrow> 'a event heap \<times> nat" where
  "sortedEvents localeCompare h events sortBy =
     (if length (h ! events) = 0 then alloc h []
      else
        let (h1, copy) = alloc h (h ! events) in
        if sortBy = ''recent'' then sortInPlace (\<lambda>a b. dateDiff a b) h1 copy
        else if sortBy = ''oldest'' then sortInPlace (\<lambda>a b. dateDiff b a) h1 copy
        else if sortBy = ''alphabet'' then
          sortInPlace (\<lambda>a b. Some (localeCompare (titleOrEmpty a) (titleOrEmpty b))) h1 copy
        else (h1, copy))"

section \<open>Properties\<close>

lemma isAbsoluteUrl_nonempty: "isAbsoluteUrl s \<Longrightarrow> s \<noteq> []"
  by (auto simp: isAbsoluteUrl_def)

text \<open>
  Claim C4. An image reference that matches \<open>/^https?:\/\//i\<close> is returned unchanged by
  each of the three copies of \<open>getImageUrl\<close>, for every avatar flag and every API base.
\<close>

theorem C4_absolute_url_unchanged:
  assumes "isAbsoluteUrl p"
  shows "getImageUrl_UserDetails (Some p) apiBase isUserAvatar = Some p
       \<and> getImageUrl_PostDetails (Some p) apiBase isUserAvatar = Some p
       \<and> getImageUrl_Home (Some p) apiBase = Some p"
  using assms isAbsoluteUrl_nonempty [OF assms]
  by (simp add: getImageUrl_UserDetails_def getImageUrl_PostDetails_def getImageUrl_Home_def)

theorem C4_absolute_url_unchanged_witness:
  "isAbsoluteUrl ''HTTPS://cdn.example.org/a.png''
   \<and> getImageUrl_UserDetails (Some ''HTTPS://cdn.example.org/a.png'') ''http://api'' True
       = Some ''HTTPS://cdn.example.org/a.png''
   \<and> getImageUrl_PostDetails (Some ''HTTPS://cdn.example.org/a.png'') ''http://api'' True
       = Some ''HTTPS://cdn.example.org/a.png''
   \<and> getImageUrl_Home (Some ''HTTPS://cdn.example.org/a.png'') ''http://api''
       = Some ''HTTPS://cdn.example.org/a.png''"
proof -
  have h: "isAbsoluteUrl ''HTTPS://cdn.example.org/a.png''"
    by code_simp
  show ?thesis
    using h C4_absolute_url_unchanged [OF h, of "''http://api''" True] by simp
qed


subsection \<open>The templates of the resolved URL\<close>

lemma stripLeadingSlashes_shape:
  "\<exists>n. p = replicate n (CHR ''/'') @ stripLeadingSlashes p"
proof -
  have "p = takeWhile (\<lambda>c. c = CHR ''/'') p @ dropWhile (\<lambda>c. c = CHR ''/'') p"
    by simp
  moreover have "takeWhile (\<lambda>c. c = CHR ''/'') p
      = replicate (length (takeWhile (\<lambda>c. c = CHR ''/'') p)) (CHR ''/'')"
    by (induction p) auto
  ultimately show ?thesis unfolding stripLeadingSlashes_def by metis
qed

lemma stripLeadingSlashes_no_leading: "\<not> startsWith (stripLeadingSlashes p) ''/''"
  unfolding stripLeadingSlashes_def startsWith_def
  by (induction p) auto

lemma startsWithD: "startsWith c p \<Longrightarrow> \<exists>r. c = p @ r"
  unfolding startsWith_def by (metis append_take_drop_id)

lemma startsWith_avatar_slash: "startsWith c ''avatar/'' \<Longrightarrow> CHR ''/'' \<in> set c"
  by (drule startsWithD) auto

lemma startsWith_excl:
  "startsWith c ''avatar/'' \<Longrightarrow> \<not> startsWith c ''storage/garbage_post_images/''"
  "startsWith c ''avatar/'' \<Longrightarrow> \<not> startsWith c ''garbage_post_images/''"
  "startsWith c ''garbage_post_images/'' \<Longrightarrow> \<not> startsWith c ''storage/garbage_post_images/''"
  "startsWith c ''garbage_post_images/'' \<Longrightarrow> CHR ''/'' \<in> set c"
  "startsWith c ''storage/garbage_post_images/'' \<Longrightarrow> CHR ''/'' \<in> set c"
proof -
  show "startsWith c ''avatar/'' \<Longrightarrow> \<not> startsWith c ''storage/garbage_post_images/''"
    by (drule startsWithD) (auto simp: startsWith_def)
  show "startsWith c ''avatar/'' \<Longrightarrow> \<not> startsWith c ''garbage_post_images/''"
    by (drule startsWithD) (auto simp: startsWith_def)
  show "startsWith c ''garbage_post_images/'' \<Longrightarrow> \<not> startsWith c ''storage/garbage_post_images/''"
    by (drule startsWithD) (auto simp: startsWith_def)
  show "startsWith c ''garbage_post_images/'' \<Longrightarrow> CHR ''/'' \<in> set c"
    by (drule startsWithD) auto
  show "startsWith c ''storage/garbage_post_images/'' \<Longrightarrow> CHR ''/'' \<in> set c"
    by (drule startsWithD) auto
qed


lemma url_neq:
  "b @ ''/storage/'' @ c \<noteq> b @ ''/'' @ c"
  "b @ ''/storage/'' @ c \<noteq> b @ ''/storage/avatar/'' @ c"
  "b @ ''/api/users/'' @ c @ ''/avatar'' \<noteq> b @ ''/storage/avatar/'' @ c"
  "b @ ''/api/users/'' @ c @ ''/avatar'' \<noteq> b @ ''/'' @ c"
  "b @ ''/storage/'' @ c \<noteq> b @ ''/public/storage/'' @ c"
  "b @ ''/'' @ c \<noteq> b @ ''/public/storage/'' @ c"
proof -
  have len: "length x \<noteq> length y \<Longrightarrow> b @ x \<noteq> b @ y" for x y :: string
    by auto
  show "b @ ''/storage/'' @ c \<noteq> b @ ''/'' @ c"
    by (rule len) simp
  show "b @ ''/storage/'' @ c \<noteq> b @ ''/storage/avatar/'' @ c"
    by (rule len) simp
  show "b @ ''/api/users/'' @ c @ ''/avatar'' \<noteq> b @ ''/storage/avatar/'' @ c"
    by simp
  show "b @ ''/api/users/'' @ c @ ''/avatar'' \<noteq> b @ ''/'' @ c"
    by (rule len) simp
  show "b @ ''/storage/'' @ c \<noteq> b @ ''/public/storage/'' @ c"
    by (rule len) simp
  show "b @ ''/'' @ c \<noteq> b @ ''/public/storage/'' @ c"
    by (rule len) simp
qed

text \<open>
  Claim C1, as stated, fails. The home-screen copy resolves a reference without a slash
  under \<open>/storage/avatar/\<close>, which is none of the three listed templates; and every
  copy answers \<open>null\<close> to the empty reference, which is not an absolute URL.
\<close>

theorem C1_home_template_counterexample:
  "\<not> isAbsoluteUrl ''x.jpg''
   \<and> stripLeadingSlashes ''x.jpg'' = ''x.jpg''
   \<and> getImageUrl_Home (Some ''x.jpg'') ''http://api'' = Some ''http://api/storage/avatar/x.jpg''
   \<and> getImageUrl_Home (Some ''x.jpg'') ''http://api''
       \<notin> {Some (''http://api'' @ ''/storage/'' @ ''x.jpg''),
           Some (''http://api'' @ ''/'' @ ''x.jpg''),
           Some (''http://api'' @ ''/api/users/'' @ ''x.jpg'' @ ''/avatar'')}
   \<and> \<not> isAbsoluteUrl []
   \<and> getImageUrl_PostDetails (Some []) ''http://api'' False = None"
proof -
  have h: "getImageUrl_Home (Some ''x.jpg'') ''http://api'' = Some ''http://api/storage/avatar/x.jpg''"
    by code_simp
  have "\<not> isAbsoluteUrl ''x.jpg''" "stripLeadingSlashes ''x.jpg'' = ''x.jpg''"
    "\<not> isAbsoluteUrl []" "getImageUrl_PostDetails (Some []) ''http://api'' False = None"
    by code_simp+
  then show ?thesis unfolding h by simp
qed

text \<open>
  Claim C1, amended. For a non-empty reference that is not an absolute URL, the cleaned
  path is the reference without its leading slashes. The user-details and post-details
  copies return \<open>apiBase + '/api/users/' + path + '/avatar'\<close> when the avatar flag is
  set and the cleaned path has no slash, and otherwise \<open>apiBase + '/storage/' + path\<close>
  or (post-details only) \<open>apiBase + '/' + path\<close>. The home-screen copy returns one of
  \<open>apiBase + '/storage/' + path\<close>, \<open>apiBase + '/' + path\<close> and
  \<open>apiBase + '/storage/avatar/' + path\<close>.
\<close>

theorem C1_getImageUrl_templates:
  assumes "p \<noteq> []" and "\<not> isAbsoluteUrl p"
  shows "(\<exists>n. p = replicate n (CHR ''/'') @ stripLeadingSlashes p)
     \<and> \<not> startsWith (stripLeadingSlashes p) ''/''
     \<and> (isUserAvatar \<and> CHR ''/'' \<notin> set (stripLeadingSlashes p) \<longrightarrow>
          getImageUrl_UserDetails (Some p) apiBase isUserAvatar
            = Some (apiBase @ ''/api/users/'' @ stripLeadingSlashes p @ ''/avatar'')
        \<and> getImageUrl_PostDetails (Some p) apiBase isUserAvatar
            = Some (apiBase @ ''/api/users/'' @ stripLeadingSlashes p @ ''/avatar''))
     \<and> (\<not> (isUserAvatar \<and> CHR ''/'' \<notin> set (stripLeadingSlashes p)) \<longrightarrow>
          getImageUrl_UserDetails (Some p) apiBase isUserAvatar
            = Some (apiBase @ ''/storage/'' @ stripLeadingSlashes p)
        \<and> getImageUrl_PostDetails (Some p) apiBase isUserAvatar
            \<in> {Some (apiBase @ ''/storage/'' @ stripLeadingSlashes p),
                Some (apiBase @ ''/'' @ stripLeadingSlashes p)})
     \<and> getImageUrl_Home (Some p) apiBase
          \<in> {Some (apiBase @ ''/storage/'' @ stripLeadingSlashes p),
              Some (apiBase @ ''/'' @ stripLeadingSlashes p),
              Some (apiBase @ ''/storage/avatar/'' @ stripLeadingSlashes p)}"
  using assms stripLeadingSlashes_shape [of p] stripLeadingSlashes_no_leading [of p]
    startsWith_avatar_slash [of "stripLeadingSlashes p"]
  by (auto simp: getImageUrl_UserDetails_def getImageUrl_PostDetails_def
      getImageUrl_Home_def Let_def)

theorem C1_getImageUrl_templates_witness:
  "getImageUrl_UserDetails (Some ''/42'') ''http://api'' True = Some ''http://api/api/users/42/avatar''
   \<and> getImageUrl_PostDetails (Some ''/42'') ''http://api'' True = Some ''http://api/api/users/42/avatar''
   \<and> getImageUrl_UserDetails (Some ''//garbage_post_images/a.png'') ''http://api'' False
       = Some ''http://api/storage/garbage_post_images/a.png''
   \<and> getImageUrl_PostDetails (Some ''//garbage_post_images/a.png'') ''http://api'' False
       = Some ''http://api/storage/garbage_post_images/a.png''
   \<and> getImageUrl_Home (Some ''//garbage_post_images/a.png'') ''http://api''
       = Some ''http://api/storage/garbage_post_images/a.png''"
proof -
  have a: "''/42'' \<noteq> []" "\<not> isAbsoluteUrl ''/42''"
    and b: "''//garbage_post_images/a.png'' \<noteq> []" "\<not> isAbsoluteUrl ''//garbage_post_images/a.png''"
    by simp_all code_simp+
  have c: "stripLeadingSlashes ''/42'' = ''42''"
    "stripLeadingSlashes ''//garbage_post_images/a.png'' = ''garbage_post_images/a.png''"
    "getImageUrl_Home (Some ''//garbage_post_images/a.png'') ''http://api''
       = Some ''http://api/storage/garbage_post_images/a.png''"
    "getImageUrl_PostDetails (Some ''//garbage_post_images/a.png'') ''http://api'' False
       = Some ''http://api/storage/garbage_post_images/a.png''"
    by code_simp+
  show ?thesis
    using C1_getImageUrl_templates [OF a, of True "''http://api''"]
      C1_getImageUrl_templates [OF b, of False "''http://api''"] c
    by simp
qed

subsection \<open>The three copies compared\<close>

text \<open>
  Claim C5, as stated, fails: a bare file name and a \<open>storage/garbage_post_images/\<close>
  path are resolved differently by the copies.
\<close>

theorem C5_copies_differ_counterexample:
  "getImageUrl_UserDetails (Some ''x.jpg'') ''http://api'' False = Some ''http://api/storage/x.jpg''
   \<and> getImageUrl_PostDetails (Some ''x.jpg'') ''http://api'' False = Some ''http://api/storage/x.jpg''
   \<and> getImageUrl_Home (Some ''x.jpg'') ''http://api'' = Some ''http://api/storage/avatar/x.jpg''
   \<and> getImageUrl_UserDetails (Some ''x.jpg'') ''http://api'' False
       \<noteq> getImageUrl_Home (Some ''x.jpg'') ''http://api''
   \<and> getImageUrl_UserDetails (Some ''storage/garbage_post_images/a.png'') ''http://api'' False
       = Some ''http://api/storage/storage/garbage_post_images/a.png''
   \<and> getImageUrl_PostDetails (Some ''storage/garbage_post_images/a.png'') ''http://api'' False
       = Some ''http://api/storage/garbage_post_images/a.png''"
proof -
  have h: "getImageUrl_UserDetails (Some ''x.jpg'') ''http://api'' False = Some ''http://api/storage/x.jpg''"
    "getImageUrl_PostDetails (Some ''x.jpg'') ''http://api'' False = Some ''http://api/storage/x.jpg''"
    "getImageUrl_Home (Some ''x.jpg'') ''http://api'' = Some ''http://api/storage/avatar/x.jpg''"
    "getImageUrl_UserDetails (Some ''storage/garbage_post_images/a.png'') ''http://api'' False
       = Some ''http://api/storage/storage/garbage_post_images/a.png''"
    "getImageUrl_PostDetails (Some ''storage/garbage_post_images/a.png'') ''http://api'' False
       = Some ''http://api/storage/garbage_post_images/a.png''"
    by code_simp+
  show ?thesis unfolding h by simp
qed

text \<open>
  Claim C5, amended. The three copies of \<open>getImageUrl\<close> return equal results exactly
  when the reference is falsy, is an absolute URL, or has a cleaned path that starts
  with \<open>avatar/\<close> or with \<open>garbage_post_images/\<close>.
\<close>

theorem C5_copies_agree_iff:
  "(getImageUrl_UserDetails imagePath apiBase isUserAvatar
       = getImageUrl_PostDetails imagePath apiBase isUserAvatar
    \<and> getImageUrl_PostDetails imagePath apiBase isUserAvatar
       = getImageUrl_Home imagePath apiBase)
   \<longleftrightarrow>
   (case imagePath of
      None \<Rightarrow> True
    | Some p \<Rightarrow> p = [] \<or> isAbsoluteUrl p
        \<or> startsWith (stripLeadingSlashes p) ''avatar/''
        \<or> startsWith (stripLeadingSlashes p) ''garbage_post_images/'')"
proof (cases imagePath)
  case None
  then show ?thesis
    by (simp add: getImageUrl_UserDetails_def getImageUrl_PostDetails_def getImageUrl_Home_def)
next
  case (Some p)
  show ?thesis
  proof (cases "p = [] \<or> isAbsoluteUrl p")
    case True
    then show ?thesis using Some
      by (auto simp: getImageUrl_UserDetails_def getImageUrl_PostDetails_def getImageUrl_Home_def)
  next
    case False
    then show ?thesis
      using Some startsWith_avatar_slash [of "stripLeadingSlashes p"]
        startsWith_excl [of "stripLeadingSlashes p"]
        url_neq(1-4) [of apiBase "stripLeadingSlashes p"]
        url_neq(1,2) [of apiBase "stripLeadingSlashes p", symmetric]
      by (simp add: getImageUrl_UserDetails_def getImageUrl_PostDetails_def
          getImageUrl_Home_def Let_def)
  qed
qed

theorem C5_copies_agree_iff_witness:
  "getImageUrl_UserDetails (Some ''/avatar/7/me.png'') ''http://api'' True
     = getImageUrl_PostDetails (Some ''/avatar/7/me.png'') ''http://api'' True
   \<and> getImageUrl_PostDetails (Some ''/avatar/7/me.png'') ''http://api'' True
     = getImageUrl_Home (Some ''/avatar/7/me.png'') ''http://api''"
proof -
  have "startsWith (stripLeadingSlashes ''/avatar/7/me.png'') ''avatar/''"
    by code_simp
  then show ?thesis
    using C5_copies_agree_iff [of "Some ''/avatar/7/me.png''" "''http://api''" True]
    by simp
qed

subsection \<open>Retries after an image-load failure\<close>

lemma retryUrl_distinct:
  "distinct [retryUrl base av 0 c, retryUrl base av (Suc 0) c, retryUrl base av 2 c]"
  using url_neq(1,5,6) [of base c]
  by (cases av) (simp_all add: retryUrl_def STORAGE_PATHS_def)

lemma handle_advance:
  assumes "p \<noteq> []" and "retryCount st < 3"
  shows "handleImageError up base (Some p) name av st
       = Returned (st\<lparr>retryCount := retryCount st + 1,
            imageSource := Some (retryUrl base av (retryCount st) (stripLeadingSlashes p))\<rparr>)"
  using assms by (simp add: handleImageError_def STORAGE_PATHS_def Let_def)

lemma handle_exhausted_useFallbackAvatar:
  assumes "\<not> truthy path \<or> 3 \<le> retryCount st"
  shows "handleImageError up base path name av st = useFallbackAvatar up name st"
  using assms
  by (auto simp: handleImageError_def STORAGE_PATHS_def truthy_def split: option.splits)

lemma handle_exhausted:
  assumes "\<not> truthy path \<or> 3 \<le> retryCount st"
    and "encodeURIComponent (getInitial up name) = Some e"
  shows "handleImageError up base path name av st
       = Returned (st\<lparr>imageError := True, imageSource := Some (fallbackUrl e)\<rparr>)"
  using assms(2) unfolding handle_exhausted_useFallbackAvatar [OF assms(1)]
  by (simp add: useFallbackAvatar_def Let_def)

lemma handle_uri_error:
  assumes "\<not> truthy path \<or> 3 \<le> retryCount st"
    and "encodeURIComponent (getInitial up name) = None"
  shows "handleImageError up base path name av st = Threw (st\<lparr>imageError := True\<rparr>)"
  using assms(2) unfolding handle_exhausted_useFallbackAvatar [OF assms(1)]
  by (simp add: useFallbackAvatar_def Let_def)

lemma handle_count_exhausted:
  assumes "\<not> truthy path \<or> 3 \<le> retryCount st"
  shows "retryCount (afterFailure up base path name av st) = retryCount st"
  unfolding afterFailure_def handle_exhausted_useFallbackAvatar [OF assms]
  by (simp add: useFallbackAvatar_def Let_def split: option.splits)

lemma handle_iter_count:
  "\<not> truthy path \<or> min k 3 \<le> retryCount ((afterFailure up base path name av ^^ k) st)"
proof (induction k)
  case 0
  then show ?case by simp
next
  case (Suc k)
  let ?H = "afterFailure up base path name av"
  let ?s = "(?H ^^ k) st"
  show ?case
  proof (cases "truthy path")
    case False
    then show ?thesis by simp
  next
    case True
    then obtain p where p: "path = Some p" "p \<noteq> []"
      by (auto simp: truthy_def split: option.splits)
    from Suc True have le: "min k 3 \<le> retryCount ?s" by simp
    show ?thesis
    proof (cases "retryCount ?s < 3")
      case True
      then have "retryCount (?H ?s) = retryCount ?s + 1"
        using handle_advance [OF p(2), of ?s up base name av] p(1)
        by (simp add: afterFailure_def)
      with le True show ?thesis by (auto simp: min_def split: if_splits)
    next
      case False
      then have "3 \<le> retryCount (?H ?s)"
        using handle_count_exhausted [of path ?s up base name av] by simp
      then show ?thesis by (auto simp: min_def split: if_splits)
    qed
  qed
qed

lemma handle_fallback_stable:
  assumes "\<not> truthy path \<or> 3 \<le> retryCount st"
    and enc: "encodeURIComponent (getInitial up name) = Some e"
  shows "(afterFailure up base path name av ^^ Suc m) st
       = st\<lparr>imageError := True, imageSource := Some (fallbackUrl e)\<rparr>"
proof (induction m)
  case 0
  then show ?case using handle_exhausted [OF assms] by (simp add: afterFailure_def)
next
  case (Suc m)
  have "\<not> truthy path \<or> 3 \<le> retryCount (st\<lparr>imageError := True,
          imageSource := Some (fallbackUrl e)\<rparr>)"
    using assms(1) by simp
  from handle_exhausted [OF this enc] Suc show ?case by (simp add: afterFailure_def)
qed

lemma handle_after_four:
  assumes "4 \<le> n" and enc: "encodeURIComponent (getInitial up name) = Some e"
  shows "imageSource ((afterFailure up base path name av ^^ n) st) = Some (fallbackUrl e)
       \<and> imageError ((afterFailure up base path name av ^^ n) st)"
proof -
  let ?H = "afterFailure up base path name av"
  from assms(1) have "n = Suc (n - 4) + 3" by simp
  then obtain m where n: "n = Suc m + 3" ..
  have ex: "\<not> truthy path \<or> 3 \<le> retryCount ((?H ^^ 3) st)"
    using handle_iter_count [of path 3 up base name av st] by simp
  have "(?H ^^ n) st = (?H ^^ Suc m) ((?H ^^ 3) st)"
    unfolding n by (simp only: funpow_add o_apply)
  then show ?thesis
    using handle_fallback_stable [OF ex enc, where base = base and av = av and m = m]
    by simp
qed

lemma encode_U: "encodeURIComponent (fromAscii ''U'') = Some ''U''"
  by code_simp

lemma encode_unreserved:
  assumes "unat c < 128" and "isUnreserved (char_of (unat c))"
  shows "encodeURIComponent [c] = Some [char_of (unat c)]"
  using assms by (simp add: encodeURIComponent_def)

lemma encode_not_surrogate:
  assumes "\<not> isLeadSurrogate (unat c)" and "\<not> isTrailSurrogate (unat c)"
  shows "encodeURIComponent [c] \<noteq> None"
  using assms by (simp add: encodeURIComponent_def)

lemma encode_lone_surrogate:
  assumes "isLeadSurrogate (unat c) \<or> isTrailSurrogate (unat c)"
  shows "encodeURIComponent [c] = None"
proof -
  have "\<not> unat c < 128" using assms by (auto simp: isLeadSurrogate_def isTrailSurrogate_def)
  then show ?thesis using assms by (simp add: encodeURIComponent_def)
qed

lemma rerender_keeps_handler:
  assumes "propPath props = propPath (udProps h)" and "propAvatar props = propAvatar (udProps h)"
  shows "udHandlerName (rerender_UserDetails base props h) = udHandlerName h
       \<and> udState (rerender_UserDetails base props h) = udState h"
  using assms by (simp add: rerender_UserDetails_def)

text \<open>
  Claim C2, as stated, fails. In the user-details hook the first failure of a generic
  path selects the URL that has just failed, and once the cursor is at 3 a failure no
  longer advances it. In the home-screen hook, which has no cursor, the second failure
  selects the same URL as the first.
\<close>

theorem C2_retry_counterexample:
  "imageSource (useImageWithFallback_UserDetails ''http://api'' (Some ''a/b.jpg'') False)
     = Some ''http://api/storage/a/b.jpg''
   \<and> imageSource (afterFailure toUpperCaseAscii ''http://api'' (Some ''a/b.jpg'') None False
         (useImageWithFallback_UserDetails ''http://api'' (Some ''a/b.jpg'') False))
     = Some ''http://api/storage/a/b.jpg''
   \<and> retryCount ((afterFailure toUpperCaseAscii ''http://api'' (Some ''a/b.jpg'') None False ^^ 3)
         (useImageWithFallback_UserDetails ''http://api'' (Some ''a/b.jpg'') False)) = 3
   \<and> retryCount ((afterFailure toUpperCaseAscii ''http://api'' (Some ''a/b.jpg'') None False ^^ 4)
         (useImageWithFallback_UserDetails ''http://api'' (Some ''a/b.jpg'') False)) = 3
   \<and> homeImageSource (handleImageError_Home ''http://api'' (Some ''http://api/storage/avatar/x.jpg'') None
         (useImageWithFallback_Home (Some ''http://api/storage/avatar/x.jpg'')))
     = Some ''http://api/public/storage/x.jpg''
   \<and> homeImageSource ((handleImageError_Home ''http://api'' (Some ''http://api/storage/avatar/x.jpg'') None ^^ 2)
         (useImageWithFallback_Home (Some ''http://api/storage/avatar/x.jpg'')))
     = Some ''http://api/public/storage/x.jpg''"
  by code_simp

text \<open>
  Claim C2, amended, for the hooks of the user-details and post-details screens. For a
  non-empty image reference, a failure reported while the cursor is below 3 advances
  the cursor by one and sets the image source to the URL built from the template at the
  old cursor: \<open>base + STORAGE_PATHS[i] + path\<close> without the avatar flag, and with it
  \<open>/storage/avatar/<file>\<close> at cursor 0, \<open>/api/users/<id>/avatar\<close> at cursor 1 and
  \<open>/public/storage/<path>\<close> at cursor 2. The three retry URLs are pairwise distinct.
  A failure reported at a cursor of 3 or more leaves the cursor where it is.
\<close>

theorem C2_retry_cursor:
  assumes "p \<noteq> []"
  shows "(retryCount st < 3 \<longrightarrow>
            handleImageError up base (Some p) name av st
              = Returned (st\<lparr>retryCount := retryCount st + 1,
                   imageSource := Some (retryUrl base av (retryCount st) (stripLeadingSlashes p))\<rparr>))
       \<and> (3 \<le> retryCount st \<longrightarrow>
            retryCount (stateOf (handleImageError up base (Some p) name av st)) = retryCount st)
       \<and> STORAGE_PATHS = [''/storage/'', ''/'', ''/public/storage/'']
       \<and> (\<forall>i < 3. retryUrl base False i c = base @ STORAGE_PATHS ! i @ c)
       \<and> retryUrl base True 0 c = base @ ''/storage/avatar/'' @ removeFirst c ''avatar/''
       \<and> retryUrl base True 1 c
            = base @ ''/api/users/'' @ firstSegment (removeFirst c ''avatar/'') @ ''/avatar''
       \<and> retryUrl base True 2 c = base @ ''/public/storage/'' @ c
       \<and> distinct [retryUrl base av 0 c, retryUrl base av 1 c, retryUrl base av 2 c]"
proof -
  have "retryCount st < 3 \<longrightarrow>
          handleImageError up base (Some p) name av st
            = Returned (st\<lparr>retryCount := retryCount st + 1,
                 imageSource := Some (retryUrl base av (retryCount st) (stripLeadingSlashes p))\<rparr>)"
    using handle_advance [OF assms] by blast
  moreover have "3 \<le> retryCount st \<longrightarrow>
          retryCount (stateOf (handleImageError up base (Some p) name av st)) = retryCount st"
    using handle_count_exhausted [of "Some p" st up base name av]
    by (simp add: afterFailure_def)
  moreover have "\<forall>i < 3. retryUrl base False i c = base @ STORAGE_PATHS ! i @ c"
    by (simp add: retryUrl_def)
  moreover have "retryUrl base True 0 c = base @ ''/storage/avatar/'' @ removeFirst c ''avatar/''"
    "retryUrl base True 1 c
       = base @ ''/api/users/'' @ firstSegment (removeFirst c ''avatar/'') @ ''/avatar''"
    "retryUrl base True 2 c = base @ ''/public/storage/'' @ c"
    by (simp_all add: retryUrl_def STORAGE_PATHS_def)
  moreover have "distinct [retryUrl base av 0 c, retryUrl base av 1 c, retryUrl base av 2 c]"
    using retryUrl_distinct [of base av c] by simp
  ultimately show ?thesis by (simp add: STORAGE_PATHS_def)
qed

theorem C2_retry_cursor_witness:
  "handleImageError toUpperCaseAscii ''http://api'' (Some ''/avatar/7/me.png'') None True
      \<lparr>imageSource = Some ''http://api/storage/avatar/7/me.png'', imageError = False, retryCount = 1\<rparr>
     = Returned \<lparr>imageSource = Some ''http://api/api/users/7/avatar'', imageError = False,
                 retryCount = 2\<rparr>
   \<and> retryCount (stateOf (handleImageError toUpperCaseAscii ''http://api''
        (Some ''/avatar/7/me.png'') None True
        \<lparr>imageSource = Some ''http://api/public/storage/avatar/7/me.png'', imageError = False,
         retryCount = 3\<rparr>)) = 3"
proof -
  have ne: "''/avatar/7/me.png'' \<noteq> []" by simp
  have u: "retryUrl ''http://api'' True 1 (stripLeadingSlashes ''/avatar/7/me.png'')
             = ''http://api/api/users/7/avatar''"
    by code_simp
  show ?thesis
    using C2_retry_cursor [OF ne, of
        "\<lparr>imageSource = Some ''http://api/storage/avatar/7/me.png'', imageError = False, retryCount = 1\<rparr>"
        toUpperCaseAscii "''http://api''" None True]
      C2_retry_cursor [OF ne, of
        "\<lparr>imageSource = Some ''http://api/public/storage/avatar/7/me.png'', imageError = False,
          retryCount = 3\<rparr>"
        toUpperCaseAscii "''http://api''" None True]
      u
    by simp
qed

subsection \<open>The fallback avatar\<close>

text \<open>
  Claim C3, as stated, fails: the initial is passed through \<open>encodeURIComponent\<close>, so
  a name that starts with \<open>@\<close> gives \<open>name=%40\<close>, not \<open>name=@\<close>.
\<close>

theorem C3_fallback_encoding_counterexample:
  "handleImageError toUpperCaseAscii ''http://api'' None (Some (fromAscii ''@dardan'')) False
       (useImageWithFallback_UserDetails ''http://api'' None False)
     = Returned \<lparr>imageSource
         = Some ''https://ui-avatars.com/api/?name=%40&background=random&color=fff&size=100'',
        imageError = True, retryCount = 0\<rparr>
   \<and> toUpperCaseAscii (take 1 (fromAscii ''@dardan'')) = fromAscii ''@''
   \<and> imageSource (stateOf (handleImageError toUpperCaseAscii ''http://api'' None
         (Some (fromAscii ''@dardan'')) False
         (useImageWithFallback_UserDetails ''http://api'' None False)))
     \<noteq> Some ''https://ui-avatars.com/api/?name=@&background=random&color=fff&size=100''"
proof -
  have i: "getInitial toUpperCaseAscii (Some (fromAscii ''@dardan'')) = fromAscii ''@''"
    by code_simp
  have m: "map unat (fromAscii ''@'') = [64]"
    by code_simp
  have u: "isUnreserved (char_of (64::nat)) = False"
    by code_simp
  have p: "escapeCodePoint 64 = ''%40''"
    by code_simp
  have e: "encodeURIComponent (getInitial toUpperCaseAscii (Some (fromAscii ''@dardan'')))
      = Some ''%40''"
    unfolding i encodeURIComponent_def m
    by (simp add: u p isLeadSurrogate_def isTrailSurrogate_def)
  have h: "handleImageError toUpperCaseAscii ''http://api'' None (Some (fromAscii ''@dardan'')) False
       (useImageWithFallback_UserDetails ''http://api'' None False)
     = Returned \<lparr>imageSource
         = Some ''https://ui-avatars.com/api/?name=%40&background=random&color=fff&size=100'',
        imageError = True, retryCount = 0\<rparr>"
    by (simp add: handleImageError_def useFallbackAvatar_def e fallbackUrl_def
        useImageWithFallback_UserDetails_def truthy_def)
  have t: "toUpperCaseAscii (take 1 (fromAscii ''@dardan'')) = fromAscii ''@''"
    by code_simp
  show ?thesis unfolding h t by simp
qed

text \<open>
  Claim C3, amended, for the hooks of the user-details and post-details screens. Let the
  initial be the upper-cased first code unit of the display name that the handler holds,
  or \<open>U\<close> when that name is absent or empty, and suppose that \<open>encodeURIComponent\<close>
  accepts the initial (it accepts every code unit that is not a surrogate, and leaves an
  unreserved character such as a letter or a digit as it is). Then, once the image
  reference is falsy or the cursor has reached 3, a reported failure sets the image
  source to
  \<open>https://ui-avatars.com/api/?name=<I>&background=random&color=fff&size=100\<close> with
  the encoded initial for \<open><I>\<close>, and from any state this fallback is the source after
  four reported failures and after every later one. The handler of the user-details hook
  holds the current display name after the mount and after every render that changes the
  image reference or the avatar flag; whenever it holds the current name, its fallback is
  built from that name.
\<close>

theorem C3_fallback_avatar:
  "(encodeURIComponent (getInitial up name) = Some e \<longrightarrow>
      (\<not> truthy path \<or> 3 \<le> retryCount st \<longrightarrow>
         handleImageError up base path name av st
           = Returned (st\<lparr>imageError := True,
               imageSource := Some (''https://ui-avatars.com/api/?name='' @ e
                 @ ''&background=random&color=fff&size=100'')\<rparr>))
      \<and> (\<forall>n. 4 \<le> n \<longrightarrow>
            imageSource ((afterFailure up base path name av ^^ n) st)
              = Some (''https://ui-avatars.com/api/?name='' @ e
                  @ ''&background=random&color=fff&size=100'')
            \<and> imageError ((afterFailure up base path name av ^^ n) st)))
   \<and> (\<not> truthy name \<longrightarrow> encodeURIComponent (getInitial up name) = Some ''U'')
   \<and> (\<forall>s. name = Some s \<and> s \<noteq> [] \<longrightarrow> getInitial up name = up (take 1 s))
   \<and> (\<forall>c. \<not> isLeadSurrogate (unat c) \<and> \<not> isTrailSurrogate (unat c) \<longrightarrow>
          encodeURIComponent [c] \<noteq> None)
   \<and> (\<forall>c. unat c < 128 \<and> isUnreserved (char_of (unat c)) \<longrightarrow>
          encodeURIComponent [c] = Some [char_of (unat c)])
   \<and> udHandlerName (mount_UserDetails base props) = propName props
   \<and> (propPath props \<noteq> propPath (udProps h) \<or> propAvatar props \<noteq> propAvatar (udProps h) \<longrightarrow>
        udHandlerName (rerender_UserDetails base props h) = propName props)
   \<and> (udHandlerName h = propName (udProps h)
        \<and> encodeURIComponent (getInitial up (propName (udProps h))) = Some e
        \<and> (\<not> truthy (propPath (udProps h)) \<or> 3 \<le> retryCount (udState h)) \<longrightarrow>
        onError_UserDetails up base h
          = Returned (h\<lparr>udState := (udState h)\<lparr>imageError := True,
               imageSource := Some (''https://ui-avatars.com/api/?name='' @ e
                 @ ''&background=random&color=fff&size=100'')\<rparr>\<rparr>))"
proof -
  have a: "encodeURIComponent (getInitial up name) = Some e \<longrightarrow>
      (\<not> truthy path \<or> 3 \<le> retryCount st \<longrightarrow>
         handleImageError up base path name av st
           = Returned (st\<lparr>imageError := True,
               imageSource := Some (''https://ui-avatars.com/api/?name='' @ e
                 @ ''&background=random&color=fff&size=100'')\<rparr>))
      \<and> (\<forall>n. 4 \<le> n \<longrightarrow>
            imageSource ((afterFailure up base path name av ^^ n) st)
              = Some (''https://ui-avatars.com/api/?name='' @ e
                  @ ''&background=random&color=fff&size=100'')
            \<and> imageError ((afterFailure up base path name av ^^ n) st))"
  proof (intro impI conjI allI)
    assume enc: "encodeURIComponent (getInitial up name) = Some e"
    {
      assume "\<not> truthy path \<or> 3 \<le> retryCount st"
      from handle_exhausted [OF this enc]
      show "handleImageError up base path name av st
           = Returned (st\<lparr>imageError := True,
               imageSource := Some (''https://ui-avatars.com/api/?name='' @ e
                 @ ''&background=random&color=fff&size=100'')\<rparr>)"
        by (simp add: fallbackUrl_def)
    }
    fix n :: nat
    assume "4 \<le> n"
    from handle_after_four [OF this enc, of base path av st]
    show "imageSource ((afterFailure up base path name av ^^ n) st)
              = Some (''https://ui-avatars.com/api/?name='' @ e
                  @ ''&background=random&color=fff&size=100'')"
      and "imageError ((afterFailure up base path name av ^^ n) st)"
      by (simp_all add: fallbackUrl_def)
  qed
  have b: "\<not> truthy name \<longrightarrow> encodeURIComponent (getInitial up name) = Some ''U''"
    using encode_U by (auto simp: truthy_def getInitial_def split: option.splits)
  have c: "\<forall>s. name = Some s \<and> s \<noteq> [] \<longrightarrow> getInitial up name = up (take 1 s)"
    by (simp add: getInitial_def)
  have d: "\<forall>c. \<not> isLeadSurrogate (unat c) \<and> \<not> isTrailSurrogate (unat c) \<longrightarrow>
          encodeURIComponent [c] \<noteq> None"
    using encode_not_surrogate by blast
  have f: "\<forall>c. unat c < 128 \<and> isUnreserved (char_of (unat c)) \<longrightarrow>
          encodeURIComponent [c] = Some [char_of (unat c)]"
    using encode_unreserved by blast
  have g: "udHandlerName (mount_UserDetails base props) = propName props"
    by (simp add: mount_UserDetails_def)
  have i: "propPath props \<noteq> propPath (udProps h) \<or> propAvatar props \<noteq> propAvatar (udProps h) \<longrightarrow>
        udHandlerName (rerender_UserDetails base props h) = propName props"
    by (auto simp: rerender_UserDetails_def)
  have j: "udHandlerName h = propName (udProps h)
        \<and> encodeURIComponent (getInitial up (propName (udProps h))) = Some e
        \<and> (\<not> truthy (propPath (udProps h)) \<or> 3 \<le> retryCount (udState h)) \<longrightarrow>
        onError_UserDetails up base h
          = Returned (h\<lparr>udState := (udState h)\<lparr>imageError := True,
               imageSource := Some (''https://ui-avatars.com/api/?name='' @ e
                 @ ''&background=random&color=fff&size=100'')\<rparr>\<rparr>)"
  proof
    assume k: "udHandlerName h = propName (udProps h)
        \<and> encodeURIComponent (getInitial up (propName (udProps h))) = Some e
        \<and> (\<not> truthy (propPath (udProps h)) \<or> 3 \<le> retryCount (udState h))"
    then have ex: "\<not> truthy (propPath (udProps h)) \<or> 3 \<le> retryCount (udState h)"
      and enc: "encodeURIComponent (getInitial up (udHandlerName h)) = Some e"
      by simp_all
    from handle_exhausted [OF ex enc, of base "propAvatar (udProps h)"]
    show "onError_UserDetails up base h
          = Returned (h\<lparr>udState := (udState h)\<lparr>imageError := True,
               imageSource := Some (''https://ui-avatars.com/api/?name='' @ e
                 @ ''&background=random&color=fff&size=100'')\<rparr>\<rparr>)"
      by (simp add: onError_UserDetails_def fallbackUrl_def)
  qed
  from a b c d f g i j show ?thesis by (intro conjI)
qed

theorem C3_fallback_avatar_witness:
  "encodeURIComponent (getInitial toUpperCaseAscii (Some (fromAscii ''dardan''))) = Some ''D''
   \<and> imageSource ((afterFailure toUpperCaseAscii ''http://api'' (Some ''a/b.jpg'')
         (Some (fromAscii ''dardan'')) False ^^ 4)
       (useImageWithFallback_UserDetails ''http://api'' (Some ''a/b.jpg'') False))
     = Some ''https://ui-avatars.com/api/?name=D&background=random&color=fff&size=100''
   \<and> handleImageError toUpperCaseAscii ''http://api'' None None False
       (useImageWithFallback_UserDetails ''http://api'' None False)
     = Returned \<lparr>imageSource
         = Some ''https://ui-avatars.com/api/?name=U&background=random&color=fff&size=100'',
        imageError = True, retryCount = 0\<rparr>
   \<and> onError_UserDetails toUpperCaseAscii ''http://api''
       (mount_UserDetails ''http://api''
          \<lparr>propPath = None, propName = Some (fromAscii ''dardan''), propAvatar = True\<rparr>)
     = Returned \<lparr>udState = \<lparr>imageSource
           = Some ''https://ui-avatars.com/api/?name=D&background=random&color=fff&size=100'',
          imageError = True, retryCount = 0\<rparr>,
        udProps = \<lparr>propPath = None, propName = Some (fromAscii ''dardan''), propAvatar = True\<rparr>,
        udHandlerName = Some (fromAscii ''dardan'')\<rparr>
   \<and> udHandlerName (rerender_UserDetails ''http://api''
         \<lparr>propPath = Some ''a/b.jpg'', propName = Some (fromAscii ''Ana''), propAvatar = True\<rparr>
         (mount_UserDetails ''http://api''
            \<lparr>propPath = None, propName = Some (fromAscii ''dardan''), propAvatar = True\<rparr>))
     = Some (fromAscii ''Ana'')
   \<and> encodeURIComponent [68] = Some ''D''"
proof -
  have e: "encodeURIComponent (getInitial toUpperCaseAscii (Some (fromAscii ''dardan''))) = Some ''D''"
    by code_simp
  have u: "encodeURIComponent (getInitial toUpperCaseAscii None) = Some ''U''"
    by code_simp
  have t: "\<not> truthy (None :: string option)" by (simp add: truthy_def)
  have m: "mount_UserDetails ''http://api''
          \<lparr>propPath = None, propName = Some (fromAscii ''dardan''), propAvatar = True\<rparr>
      = \<lparr>udState = \<lparr>imageSource = None, imageError = False, retryCount = 0\<rparr>,
         udProps = \<lparr>propPath = None, propName = Some (fromAscii ''dardan''), propAvatar = True\<rparr>,
         udHandlerName = Some (fromAscii ''dardan'')\<rparr>"
    by (simp add: mount_UserDetails_def useImageWithFallback_UserDetails_def truthy_def)
  have s0: "useImageWithFallback_UserDetails ''http://api'' None False
      = \<lparr>imageSource = None, imageError = False, retryCount = 0\<rparr>"
    by (simp add: useImageWithFallback_UserDetails_def truthy_def)
  note th = C3_fallback_avatar [where up = toUpperCaseAscii and base = "''http://api''"]
  from th [where name = "Some (fromAscii ''dardan'')" and e = "''D''" and path = "Some ''a/b.jpg''"
      and av = False
      and st = "useImageWithFallback_UserDetails ''http://api'' (Some ''a/b.jpg'') False",
      THEN conjunct1, THEN mp, OF e, THEN conjunct2, THEN spec, of 4]
  have a: "imageSource ((afterFailure toUpperCaseAscii ''http://api'' (Some ''a/b.jpg'')
         (Some (fromAscii ''dardan'')) False ^^ 4)
       (useImageWithFallback_UserDetails ''http://api'' (Some ''a/b.jpg'') False))
     = Some ''https://ui-avatars.com/api/?name=D&background=random&color=fff&size=100''"
    by simp
  from th [where name = None and e = "''U''" and path = None and av = False
      and st = "useImageWithFallback_UserDetails ''http://api'' None False",
      THEN conjunct1, THEN mp, OF u, THEN conjunct1] t
  have b: "handleImageError toUpperCaseAscii ''http://api'' None None False
       (useImageWithFallback_UserDetails ''http://api'' None False)
     = Returned \<lparr>imageSource
         = Some ''https://ui-avatars.com/api/?name=U&background=random&color=fff&size=100'',
        imageError = True, retryCount = 0\<rparr>"
    by (simp add: s0)
  from th [where e = "''D''" and h = "mount_UserDetails ''http://api''
          \<lparr>propPath = None, propName = Some (fromAscii ''dardan''), propAvatar = True\<rparr>"]
    e t
  have c: "onError_UserDetails toUpperCaseAscii ''http://api''
       (mount_UserDetails ''http://api''
          \<lparr>propPath = None, propName = Some (fromAscii ''dardan''), propAvatar = True\<rparr>)
     = Returned \<lparr>udState = \<lparr>imageSource
           = Some ''https://ui-avatars.com/api/?name=D&background=random&color=fff&size=100'',
          imageError = True, retryCount = 0\<rparr>,
        udProps = \<lparr>propPath = None, propName = Some (fromAscii ''dardan''), propAvatar = True\<rparr>,
        udHandlerName = Some (fromAscii ''dardan'')\<rparr>"
    by (simp add: m)
  from th [where props = "\<lparr>propPath = Some ''a/b.jpg'', propName = Some (fromAscii ''Ana''),
        propAvatar = True\<rparr>"
      and h = "mount_UserDetails ''http://api''
          \<lparr>propPath = None, propName = Some (fromAscii ''dardan''), propAvatar = True\<rparr>"]
  have d: "udHandlerName (rerender_UserDetails ''http://api''
         \<lparr>propPath = Some ''a/b.jpg'', propName = Some (fromAscii ''Ana''), propAvatar = True\<rparr>
         (mount_UserDetails ''http://api''
            \<lparr>propPath = None, propName = Some (fromAscii ''dardan''), propAvatar = True\<rparr>))
     = Some (fromAscii ''Ana'')"
    by (simp add: m)
  have un: "unat (68 :: 16 word) < 128" "isUnreserved (char_of (unat (68 :: 16 word)))"
    "char_of (unat (68 :: 16 word)) = CHR ''D''"
    by code_simp+
  from th [THEN conjunct2, THEN conjunct2, THEN conjunct2, THEN conjunct2, THEN conjunct1,
      THEN spec, of 68] un
  have f: "encodeURIComponent [68] = Some ''D''"
    by simp
  from e a b c d f show ?thesis by (intro conjI)
qed

subsection \<open>Keys of the persistent store\<close>

lemma dom_app_step:
  "dom (storage (app_step t stringify parse op st))
     \<subseteq> insert ''theme_preference'' (dom (storage st))"
  by (cases op)
    (auto simp: saveThemePreference_def loadThemePreference_def loadToken_def
      loadSavedVotes_def handleVote_def handleVote_token_def split: option.splits if_splits)

lemma allowedKeys_fold:
  assumes "dom (storage st) \<subseteq> allowedKeys"
  shows "dom (storage (fold (app_step t stringify parse) ops st)) \<subseteq> allowedKeys"
  using assms
proof (induction ops arbitrary: st)
  case Nil
  then show ?case by simp
next
  case (Cons op ops)
  have "dom (storage (app_step t stringify parse op st)) \<subseteq> allowedKeys"
    using dom_app_step [of t stringify parse op st] Cons.prems
    by (auto simp: allowedKeys_def)
  from Cons.IH [OF this] show ?case by simp
qed

text \<open>
  Claim C6. Every operation writes the store at most under the theme key, so the set of
  persisted keys stays within the theme key and the auth-token key along every sequence
  of operations. (\<open>handleVote\<close> would write the votes key, but its token is the
  constant \<open>null\<close> and it returns before any request or write.)
\<close>

theorem C6_persisted_keys_invariant:
  "dom (storage (app_step t stringify parse op st))
     \<subseteq> insert ''theme_preference'' (dom (storage st))
   \<and> (dom (storage st) \<subseteq> allowedKeys \<longrightarrow>
        dom (storage (fold (app_step t stringify parse) ops st)) \<subseteq> allowedKeys)"
  using dom_app_step [of t stringify parse op st] allowedKeys_fold [of st t stringify parse ops]
  by blast

theorem C6_persisted_keys_invariant_witness:
  "dom (storage \<lparr>themeMode = ''light'', userVotes = Map.empty, token = None,
                 storage = [''auth_token'' \<mapsto> ''tok'']\<rparr>) \<subseteq> allowedKeys
   \<and> dom (storage (fold (app_step (\<lambda>k. k) (\<lambda>m. ''{}'') (\<lambda>s. None))
        [ToggleTheme True, HandleVote ''p1'' ''o1'' (HttpOk (Some ''v1'')), LoadToken]
        \<lparr>themeMode = ''light'', userVotes = Map.empty, token = None,
         storage = [''auth_token'' \<mapsto> ''tok'']\<rparr>)) \<subseteq> allowedKeys"
proof -
  have h: "dom (storage \<lparr>themeMode = ''light'', userVotes = Map.empty, token = None,
                 storage = [''auth_token'' \<mapsto> ''tok'']\<rparr>) \<subseteq> allowedKeys"
    by (simp add: allowedKeys_def)
  from C6_persisted_keys_invariant [THEN conjunct2, rule_format, OF h] h
  show ?thesis by (rule_tac conjI)
qed

subsection \<open>Failed fetches\<close>

text \<open>
  Claim C7, as stated, fails: when its request fails, the post-details fetch resets the
  loaded post to \<open>null\<close> and sets no error message.
\<close>

theorem C7_post_details_counterexample:
  "fetchPostDetails (Some ''12'') None (HttpFailed ''timeout'') None
       \<lparr>post = Some (7 :: nat), pdLoading = False, pdRefreshing = True, isFavorited = True,
        pdConsole = []\<rparr>
     = \<lparr>post = None, pdLoading = False, pdRefreshing = False, isFavorited = True,
        pdConsole = [''PostDetailsScreen: Failed to fetch post details: timeout'']\<rparr>"
  by code_simp

text \<open>
  Claim C7, amended. When the HTTP request of the events fetch, of the user-profile
  fetch or of the map-posts fetch fails, the operation logs the error, sets its one
  generic error message, clears the loading and refreshing flags, and leaves the
  previously loaded data unchanged. The post-details fetch, when its request fails,
  leaves \<open>null\<close> as the loaded post.
\<close>

theorem C7_fetch_failure_keeps_data:
  "fetchEvents t (HttpFailed err) es
     = es\<lparr>console := console es @ [''Failed to fetch events: '' @ err],
          error := t ''events_load_error'', loading := False, refreshing := False\<rparr>
   \<and> loaded (fetchEvents t (HttpFailed err) es) = loaded es
   \<and> fetchUserProfile t (HttpFailed err) ps
     = ps\<lparr>console := console ps @ [''Failed to fetch user profile: '' @ err],
          error := t ''failed_to_load_profile'', loading := False, refreshing := False\<rparr>
   \<and> loaded (fetchUserProfile t (HttpFailed err) ps) = loaded ps
   \<and> fetchPosts t parseFloat (HttpFailed err) ms
     = ms\<lparr>console := console ms @ [''Failed to fetch posts: '' @ err],
          error := t ''failed_to_load_map'', loading := False, refreshing := False\<rparr>
   \<and> loaded (fetchPosts t parseFloat (HttpFailed err) ms) = loaded ms
   \<and> post (fetchPostDetails postId tok (HttpFailed err) favResp ds) = None"
  by (simp add: fetchEvents_def fetchUserProfile_def fetchPosts_def fetchPostDetails_def Let_def)

subsection \<open>Coordinates of the stored map posts\<close>

lemma truthyNum_iff: "truthyNum n \<longleftrightarrow> n \<noteq> NaN \<and> n \<noteq> Finite 0"
  by (cases n) auto

lemma hasCoordinates_iff:
  "hasCoordinates p \<longleftrightarrow>
     (\<exists>a b. postLat p = Some a \<and> postLng p = Some b \<and> a \<noteq> NaN \<and> a \<noteq> Finite 0
            \<and> b \<noteq> NaN \<and> b \<noteq> Finite 0)"
  by (auto simp: hasCoordinates_def truthyNum_iff split: option.splits)

lemma fetchPosts_success:
  assumes "processAll parseFloat (responseData payload) = Some processed"
  shows "loaded (fetchPosts t parseFloat (HttpOk payload) st) = filter hasCoordinates processed"
  using assms by (simp add: fetchPosts_def Let_def)

lemma fetchPosts_preserves:
  assumes "\<forall>p \<in> set (loaded st). hasCoordinates p"
  shows "\<forall>p \<in> set (loaded (fetchPosts t parseFloat resp st)). hasCoordinates p"
  using assms
  by (auto simp: fetchPosts_def Let_def split: http_result.splits option.splits)

text \<open>
  Claim C9. After a posts fetch that succeeds, the stored list is the list of processed
  posts without those whose latitude or longitude is \<open>null\<close>, \<open>NaN\<close> or zero; and
  whatever the response, if every stored post had a non-null, non-\<open>NaN\<close>, non-zero
  latitude and longitude before the fetch, so has every stored post after it.
\<close>

theorem C9_map_posts_have_coordinates:
  "(processAll parseFloat (responseData payload) = Some processed \<longrightarrow>
      loaded (fetchPosts t parseFloat (HttpOk payload) st) = filter hasCoordinates processed
      \<and> (\<forall>p \<in> set (loaded (fetchPosts t parseFloat (HttpOk payload) st)).
            \<exists>a b. postLat p = Some a \<and> postLng p = Some b
                  \<and> a \<noteq> NaN \<and> a \<noteq> Finite 0 \<and> b \<noteq> NaN \<and> b \<noteq> Finite 0))
   \<and> ((\<forall>p \<in> set (loaded st). hasCoordinates p) \<longrightarrow>
        (\<forall>p \<in> set (loaded (fetchPosts t parseFloat resp st)).
            \<exists>a b. postLat p = Some a \<and> postLng p = Some b
                  \<and> a \<noteq> NaN \<and> a \<noteq> Finite 0 \<and> b \<noteq> NaN \<and> b \<noteq> Finite 0))"
proof (intro conjI impI)
  assume "processAll parseFloat (responseData payload) = Some processed"
  then show s: "loaded (fetchPosts t parseFloat (HttpOk payload) st)
      = filter hasCoordinates processed"
    by (rule fetchPosts_success)
  show "\<forall>p \<in> set (loaded (fetchPosts t parseFloat (HttpOk payload) st)).
            \<exists>a b. postLat p = Some a \<and> postLng p = Some b
                  \<and> a \<noteq> NaN \<and> a \<noteq> Finite 0 \<and> b \<noteq> NaN \<and> b \<noteq> Finite 0"
    unfolding s by (simp add: hasCoordinates_iff)
next
  assume "\<forall>p \<in> set (loaded st). hasCoordinates p"
  then have "\<forall>p \<in> set (loaded (fetchPosts t parseFloat resp st)). hasCoordinates p"
    by (rule fetchPosts_preserves)
  then show "\<forall>p \<in> set (loaded (fetchPosts t parseFloat resp st)).
            \<exists>a b. postLat p = Some a \<and> postLng p = Some b
                  \<and> a \<noteq> NaN \<and> a \<noteq> Finite 0 \<and> b \<noteq> NaN \<and> b \<noteq> Finite 0"
    by (simp add: hasCoordinates_iff)
qed

theorem C9_map_posts_have_coordinates_witness:
  "map postLat (loaded (fetchPosts (\<lambda>k. k) parseFloatSample (HttpOk (DirectArray samplePosts))
        sampleMapState)) = [Some (Finite 42)]
   \<and> map postLng (loaded (fetchPosts (\<lambda>k. k) parseFloatSample (HttpOk (DirectArray samplePosts))
        sampleMapState)) = [Some (Finite 21)]
   \<and> (\<exists>a b. postLat (hd (loaded (fetchPosts (\<lambda>k. k) parseFloatSample (HttpFailed ''offline'')
                  sampleMapState))) = Some a
          \<and> postLng (hd (loaded (fetchPosts (\<lambda>k. k) parseFloatSample (HttpFailed ''offline'')
                  sampleMapState))) = Some b
          \<and> a \<noteq> NaN \<and> a \<noteq> Finite 0 \<and> b \<noteq> NaN \<and> b \<noteq> Finite 0)"
proof -
  have pa: "processAll parseFloatSample (responseData (DirectArray samplePosts))
      = Some (map (processPost parseFloatSample) (map the samplePosts))"
    by (simp add: samplePosts_def responseData_def)
  have ev: "map postLat (filter hasCoordinates
        (map (processPost parseFloatSample) (map the samplePosts))) = [Some (Finite 42)]"
    "map postLng (filter hasCoordinates
        (map (processPost parseFloatSample) (map the samplePosts))) = [Some (Finite 21)]"
    by (simp_all add: samplePosts_def processPost_def parseCoordinate_def parseFloatSample_def
        hasCoordinates_def)
  have inv: "\<forall>p \<in> set (loaded sampleMapState). hasCoordinates p"
    by (simp add: sampleMapState_def hasCoordinates_def)
  have ne: "hd (loaded (fetchPosts (\<lambda>k. k) parseFloatSample (HttpFailed ''offline'') sampleMapState))
      \<in> set (loaded (fetchPosts (\<lambda>k. k) parseFloatSample (HttpFailed ''offline'') sampleMapState))"
    by (simp add: fetchPosts_def sampleMapState_def Let_def)
  note t = C9_map_posts_have_coordinates [where parseFloat = parseFloatSample and t = "\<lambda>k. k"
      and st = sampleMapState]
  from t [where payload = "DirectArray samplePosts", THEN conjunct1, THEN mp, OF pa, THEN conjunct1] ev
  have a: "map postLat (loaded (fetchPosts (\<lambda>k. k) parseFloatSample
          (HttpOk (DirectArray samplePosts)) sampleMapState)) = [Some (Finite 42)]"
    and b: "map postLng (loaded (fetchPosts (\<lambda>k. k) parseFloatSample
          (HttpOk (DirectArray samplePosts)) sampleMapState)) = [Some (Finite 21)]"
    by simp_all
  from t [where resp = "HttpFailed ''offline''", THEN conjunct2, THEN mp, OF inv, THEN bspec, OF ne]
  have c: "\<exists>a b. postLat (hd (loaded (fetchPosts (\<lambda>k. k) parseFloatSample (HttpFailed ''offline'')
                  sampleMapState))) = Some a
          \<and> postLng (hd (loaded (fetchPosts (\<lambda>k. k) parseFloatSample (HttpFailed ''offline'')
                  sampleMapState))) = Some b
          \<and> a \<noteq> NaN \<and> a \<noteq> Finite 0 \<and> b \<noteq> NaN \<and> b \<noteq> Finite 0" .
  from a b c show ?thesis by (intro conjI)
qed

subsection \<open>The client-side sort\<close>

lemma mset_insertBy: "mset (insertBy cmp x ys) = add_mset x (mset ys)"
  by (induction ys) auto

lemma mset_arraySort: "mset (arraySort cmp xs) = mset xs"
  unfolding arraySort_def by (induction xs) (auto simp: mset_insertBy)

lemma set_insertBy: "set (insertBy cmp x ys) = insert x (set ys)"
  using mset_insertBy [of cmp x ys, THEN arg_cong, of set_mset] by simp

lemma set_arraySort: "set (arraySort cmp xs) = set xs"
  using mset_arraySort [of cmp xs, THEN arg_cong, of set_mset] by simp

lemma sorted_insertBy:
  assumes tr: "\<And>a b c. a \<in> A \<Longrightarrow> b \<in> A \<Longrightarrow> c \<in> A \<Longrightarrow>
                 \<not> positive (cmp a b) \<Longrightarrow> \<not> positive (cmp b c) \<Longrightarrow> \<not> positive (cmp a c)"
    and tot: "\<And>a b. a \<in> A \<Longrightarrow> b \<in> A \<Longrightarrow> positive (cmp a b) \<Longrightarrow> \<not> positive (cmp b a)"
    and "x \<in> A" and "set ys \<subseteq> A"
    and "sorted_wrt (\<lambda>a b. \<not> positive (cmp a b)) ys"
  shows "sorted_wrt (\<lambda>a b. \<not> positive (cmp a b)) (insertBy cmp x ys)"
  using assms(3-)
proof (induction ys)
  case Nil
  then show ?case by simp
next
  case (Cons y ys)
  show ?case
  proof (cases "positive (cmp x y)")
    case True
    have "\<not> positive (cmp y x)" using tot True Cons.prems by simp
    moreover have "sorted_wrt (\<lambda>a b. \<not> positive (cmp a b)) (insertBy cmp x ys)"
      using Cons by simp
    ultimately show ?thesis using True Cons.prems by (simp add: set_insertBy)
  next
    case False
    have "\<not> positive (cmp x z)" if "z \<in> set ys" for z
      using tr [of x y z] that False Cons.prems by auto
    then show ?thesis using False Cons.prems by simp
  qed
qed

lemma sorted_arraySort:
  assumes tr: "\<And>a b c. a \<in> A \<Longrightarrow> b \<in> A \<Longrightarrow> c \<in> A \<Longrightarrow>
                 \<not> positive (cmp a b) \<Longrightarrow> \<not> positive (cmp b c) \<Longrightarrow> \<not> positive (cmp a c)"
    and tot: "\<And>a b. a \<in> A \<Longrightarrow> b \<in> A \<Longrightarrow> positive (cmp a b) \<Longrightarrow> \<not> positive (cmp b a)"
    and "set xs \<subseteq> A"
  shows "sorted_wrt (\<lambda>a b. \<not> positive (cmp a b)) (arraySort cmp xs)"
  using assms(3)
proof (induction xs)
  case Nil
  then show ?case by (simp add: arraySort_def)
next
  case (Cons x xs)
  have s: "sorted_wrt (\<lambda>a b. \<not> positive (cmp a b)) (arraySort cmp xs)"
    using Cons by simp
  have "set (arraySort cmp xs) \<subseteq> A" using Cons.prems by (simp add: set_arraySort)
  from sorted_insertBy [of A cmp x "arraySort cmp xs", OF tr tot _ this s] Cons.prems
  show ?case by (simp add: arraySort_def)
qed

lemma valid_dates_keys:
  assumes "\<forall>e \<in> set xs. date e \<noteq> None"
  shows "map date xs = map Some (map (\<lambda>e. the (date e)) xs)"
  using assms by (induction xs) auto

lemma not_positive_dateDiff:
  "date a = Some x \<Longrightarrow> date b = Some y \<Longrightarrow> \<not> positive (dateDiff a b) \<longleftrightarrow> x \<le> y"
  by (simp add: positive_def dateDiff_def not_less)

lemma sorted_recent:
  assumes v: "\<forall>e \<in> set xs. date e \<noteq> None"
  shows "\<exists>ks. map date (arraySort (\<lambda>a b. dateDiff a b) xs) = map Some ks \<and> sorted ks"
proof -
  let ?r = "arraySort (\<lambda>a b. dateDiff a b) xs"
  let ?A = "{e. date e \<noteq> None}"
  have s: "sorted_wrt (\<lambda>a b. \<not> positive (dateDiff a b)) ?r"
    by (rule sorted_arraySort [of ?A]) (use v in \<open>auto simp: positive_def dateDiff_def\<close>)
  have vr: "\<forall>e \<in> set ?r. date e \<noteq> None" using v by (simp add: set_arraySort)
  have "sorted_wrt (\<lambda>a b. the (date a) \<le> the (date b)) ?r"
  proof (rule sorted_wrt_mono_rel [OF _ s])
    fix a b assume "a \<in> set ?r" "b \<in> set ?r" "\<not> positive (dateDiff a b)"
    moreover from this vr obtain x y where "date a = Some x" "date b = Some y"
      by (metis not_None_eq)
    ultimately show "the (date a) \<le> the (date b)"
      using not_positive_dateDiff [of a x b y] by simp
  qed
  then have "sorted (map (\<lambda>e. the (date e)) ?r)" by (simp add: sorted_wrt_map)
  with valid_dates_keys [OF vr] show ?thesis by blast
qed

lemma sorted_oldest:
  assumes v: "\<forall>e \<in> set xs. date e \<noteq> None"
  shows "\<exists>ks. map date (arraySort (\<lambda>a b. dateDiff b a) xs) = map Some ks \<and> sorted (rev ks)"
proof -
  let ?r = "arraySort (\<lambda>a b. dateDiff b a) xs"
  let ?A = "{e. date e \<noteq> None}"
  have s: "sorted_wrt (\<lambda>a b. \<not> positive (dateDiff b a)) ?r"
    by (rule sorted_arraySort [of ?A "\<lambda>a b. dateDiff b a"])
      (use v in \<open>auto simp: positive_def dateDiff_def\<close>)
  have vr: "\<forall>e \<in> set ?r. date e \<noteq> None" using v by (simp add: set_arraySort)
  have "sorted_wrt (\<lambda>a b. the (date a) \<ge> the (date b)) ?r"
  proof (rule sorted_wrt_mono_rel [OF _ s])
    fix a b assume "a \<in> set ?r" "b \<in> set ?r" "\<not> positive (dateDiff b a)"
    moreover from this vr obtain x y where "date a = Some x" "date b = Some y"
      by (metis not_None_eq)
    ultimately show "the (date a) \<ge> the (date b)"
      using not_positive_dateDiff [of b y a x] by simp
  qed
  then have "sorted (rev (map (\<lambda>e. the (date e)) ?r))"
    by (simp add: sorted_wrt_map sorted_wrt_rev)
  with valid_dates_keys [OF vr] show ?thesis by blast
qed

lemma sorted_alphabet:
  assumes "consistentComparator lc"
  shows "sorted_wrt (\<lambda>a b. lc (titleOrEmpty a) (titleOrEmpty b) \<le> 0)
           (arraySort (\<lambda>a b. Some (lc (titleOrEmpty a) (titleOrEmpty b))) xs)"
proof -
  let ?cmp = "\<lambda>a b. Some (lc (titleOrEmpty a) (titleOrEmpty b))"
  have tr: "lc x y \<le> 0 \<Longrightarrow> lc y z \<le> 0 \<Longrightarrow> lc x z \<le> 0" for x y z
    using assms unfolding consistentComparator_def by blast
  have tot: "0 < lc x y \<Longrightarrow> lc y x \<le> 0" for x y
    using assms unfolding consistentComparator_def by blast
  have p: "\<not> positive (?cmp a b) \<longleftrightarrow> lc (titleOrEmpty a) (titleOrEmpty b) \<le> 0" for a b :: "'a event"
    by (simp add: positive_def not_less)
  have "sorted_wrt (\<lambda>a b. \<not> positive (?cmp a b)) (arraySort ?cmp xs)"
  proof (rule sorted_arraySort [of UNIV])
    fix a b c :: "'a event"
    assume ab: "\<not> positive (?cmp a b)" and bc: "\<not> positive (?cmp b c)"
    from ab have 1: "lc (titleOrEmpty a) (titleOrEmpty b) \<le> 0" unfolding p .
    from bc have 2: "lc (titleOrEmpty b) (titleOrEmpty c) \<le> 0" unfolding p .
    from 1 2 have "lc (titleOrEmpty a) (titleOrEmpty c) \<le> 0" by (rule tr)
    then show "\<not> positive (?cmp a c)" unfolding p .
  next
    fix a b :: "'a event"
    assume "positive (?cmp a b)"
    then have "0 < lc (titleOrEmpty a) (titleOrEmpty b)" by (simp add: positive_def)
    then have "lc (titleOrEmpty b) (titleOrEmpty a) \<le> 0" by (rule tot)
    then show "\<not> positive (?cmp b a)" unfolding p .
  qed simp
  then show ?thesis unfolding p .
qed


lemma consistent_codeUnitCompare: "consistentComparator codeUnitCompare"
  unfolding consistentComparator_def codeUnitCompare_def
  by (auto split: if_splits)

lemma sortedEvents_result:
  "sortedEvents lc h events sortBy
     = (h @ [if h ! events = [] then []
             else if sortBy = ''recent'' then arraySort (\<lambda>a b. dateDiff a b) (h ! events)
             else if sortBy = ''oldest'' then arraySort (\<lambda>a b. dateDiff b a) (h ! events)
             else if sortBy = ''alphabet'' then
               arraySort (\<lambda>a b. Some (lc (titleOrEmpty a) (titleOrEmpty b))) (h ! events)
             else h ! events],
        length h)"
  by (simp add: sortedEvents_def alloc_def sortInPlace_def)

text \<open>
  Claim C8, as stated, fails: an event whose date does not parse compares as equal to
  every other event, and the result of the \<open>recent\<close> sort then keeps a later event
  before an earlier one.
\<close>

theorem C8_invalid_date_counterexample:
  "map date (fst (sortedEvents codeUnitCompare
       [ [\<lparr>date = Some 2, title = None, details = ()\<rparr>,
         \<lparr>date = None, title = None, details = ()\<rparr>,
         \<lparr>date = Some 1, title = None, details = ()\<rparr>] ] 0 ''recent'') ! 1)
     = [Some 2, None, Some 1]"
  by code_simp

text \<open>
  Claim C8, amended. The client-side sort leaves every array of the heap, the state
  array among them, as it was and returns a new array that is a permutation of the
  events. When every event's date parses, the result is in ascending date order under
  \<open>recent\<close> and in descending date order under \<open>oldest\<close>; under \<open>alphabet\<close> it is
  ordered by the locale comparison of the titles, a missing title counting as the
  empty string.
\<close>

theorem C8_sortedEvents:
  assumes "events < length h" and "sortedEvents lc h events sortBy = (h', r)"
  shows "(\<forall>a < length h. h' ! a = h ! a)
       \<and> r = length h \<and> length h' = Suc (length h)
       \<and> mset (h' ! r) = mset (h ! events)
       \<and> (sortBy = ''recent'' \<and> (\<forall>e \<in> set (h ! events). date e \<noteq> None) \<longrightarrow>
            (\<exists>ks. map date (h' ! r) = map Some ks \<and> sorted ks))
       \<and> (sortBy = ''oldest'' \<and> (\<forall>e \<in> set (h ! events). date e \<noteq> None) \<longrightarrow>
            (\<exists>ks. map date (h' ! r) = map Some ks \<and> sorted (rev ks)))
       \<and> (sortBy = ''alphabet'' \<and> consistentComparator lc \<longrightarrow>
            sorted_wrt (\<lambda>a b. lc (titleOrEmpty a) (titleOrEmpty b) \<le> 0) (h' ! r))"
proof -
  let ?res = "if h ! events = [] then []
             else if sortBy = ''recent'' then arraySort (\<lambda>a b. dateDiff a b) (h ! events)
             else if sortBy = ''oldest'' then arraySort (\<lambda>a b. dateDiff b a) (h ! events)
             else if sortBy = ''alphabet'' then
               arraySort (\<lambda>a b. Some (lc (titleOrEmpty a) (titleOrEmpty b))) (h ! events)
             else h ! events"
  from assms(2) have h': "h' = h @ [?res]" and r: "r = length h"
    unfolding sortedEvents_result by simp_all
  have res: "h' ! r = ?res" unfolding h' r by simp
  have old: "\<forall>a < length h. h' ! a = h ! a" unfolding h' by (simp add: nth_append)
  have len: "length h' = Suc (length h)" unfolding h' by simp
  have perm: "mset (h' ! r) = mset (h ! events)"
    unfolding res by (simp add: mset_arraySort)
  have rec: "sortBy = ''recent'' \<and> (\<forall>e \<in> set (h ! events). date e \<noteq> None) \<longrightarrow>
            (\<exists>ks. map date (h' ! r) = map Some ks \<and> sorted ks)"
  proof
    assume a: "sortBy = ''recent'' \<and> (\<forall>e \<in> set (h ! events). date e \<noteq> None)"
    show "\<exists>ks. map date (h' ! r) = map Some ks \<and> sorted ks"
    proof (cases "h ! events = []")
      case True
      then show ?thesis unfolding res by simp
    next
      case False
      then show ?thesis unfolding res using a sorted_recent [of "h ! events"] by simp
    qed
  qed
  have ol: "sortBy = ''oldest'' \<and> (\<forall>e \<in> set (h ! events). date e \<noteq> None) \<longrightarrow>
            (\<exists>ks. map date (h' ! r) = map Some ks \<and> sorted (rev ks))"
  proof
    assume a: "sortBy = ''oldest'' \<and> (\<forall>e \<in> set (h ! events). date e \<noteq> None)"
    show "\<exists>ks. map date (h' ! r) = map Some ks \<and> sorted (rev ks)"
    proof (cases "h ! events = []")
      case True
      then show ?thesis unfolding res by simp
    next
      case False
      then show ?thesis unfolding res using a sorted_oldest [of "h ! events"] by simp
    qed
  qed
  have al: "sortBy = ''alphabet'' \<and> consistentComparator lc \<longrightarrow>
            sorted_wrt (\<lambda>a b. lc (titleOrEmpty a) (titleOrEmpty b) \<le> 0) (h' ! r)"
  proof
    assume a: "sortBy = ''alphabet'' \<and> consistentComparator lc"
    show "sorted_wrt (\<lambda>a b. lc (titleOrEmpty a) (titleOrEmpty b) \<le> 0) (h' ! r)"
    proof (cases "h ! events = []")
      case True
      then show ?thesis unfolding res by simp
    next
      case False
      then show ?thesis unfolding res using a sorted_alphabet [of lc "h ! events"] by simp
    qed
  qed
  from old r len perm rec ol al show ?thesis by (intro conjI)
qed

theorem C8_sortedEvents_witness:
  "fst (sortedEvents codeUnitCompare [sampleEvents] 0 ''recent'') ! 0 = sampleEvents
   \<and> snd (sortedEvents codeUnitCompare [sampleEvents] 0 ''recent'') = 1
   \<and> map date (fst (sortedEvents codeUnitCompare [sampleEvents] 0 ''recent'') ! 1)
       = [Some 10, Some 20, Some 30]
   \<and> map date (fst (sortedEvents codeUnitCompare [sampleEvents] 0 ''oldest'') ! 1)
       = [Some 30, Some 20, Some 10]
   \<and> map title (fst (sortedEvents codeUnitCompare [sampleEvents] 0 ''alphabet'') ! 1)
       = [None, Some ''Bazaar'', Some ''clean-up'']
   \<and> (\<exists>ks. map date (fst (sortedEvents codeUnitCompare [sampleEvents] 0 ''recent'')
          ! snd (sortedEvents codeUnitCompare [sampleEvents] 0 ''recent'')) = map Some ks \<and> sorted ks)
   \<and> (\<exists>ks. map date (fst (sortedEvents codeUnitCompare [sampleEvents] 0 ''oldest'')
          ! snd (sortedEvents codeUnitCompare [sampleEvents] 0 ''oldest'')) = map Some ks
        \<and> sorted (rev ks))
   \<and> sorted_wrt (\<lambda>a b. codeUnitCompare (titleOrEmpty a) (titleOrEmpty b) \<le> 0)
        (fst (sortedEvents codeUnitCompare [sampleEvents] 0 ''alphabet'')
          ! snd (sortedEvents codeUnitCompare [sampleEvents] 0 ''alphabet''))"
proof -
  have i: "0 < length [sampleEvents]" by simp
  have v: "\<forall>e \<in> set ([sampleEvents] ! 0). date e \<noteq> None"
    by (simp add: sampleEvents_def)
  have e: "fst (sortedEvents codeUnitCompare [sampleEvents] 0 ''recent'') ! 0 = sampleEvents"
    "snd (sortedEvents codeUnitCompare [sampleEvents] 0 ''recent'') = 1"
    "map date (fst (sortedEvents codeUnitCompare [sampleEvents] 0 ''recent'') ! 1)
       = [Some 10, Some 20, Some 30]"
    "map date (fst (sortedEvents codeUnitCompare [sampleEvents] 0 ''oldest'') ! 1)
       = [Some 30, Some 20, Some 10]"
    "map title (fst (sortedEvents codeUnitCompare [sampleEvents] 0 ''alphabet'') ! 1)
       = [None, Some ''Bazaar'', Some ''clean-up'']"
    by code_simp+
  note t = C8_sortedEvents [OF i prod.collapse [symmetric], where lc = codeUnitCompare]
  from t [of "''recent''"] v
  have a: "\<exists>ks. map date (fst (sortedEvents codeUnitCompare [sampleEvents] 0 ''recent'')
          ! snd (sortedEvents codeUnitCompare [sampleEvents] 0 ''recent'')) = map Some ks \<and> sorted ks"
    by blast
  from t [of "''oldest''"] v
  have b: "\<exists>ks. map date (fst (sortedEvents codeUnitCompare [sampleEvents] 0 ''oldest'')
          ! snd (sortedEvents codeUnitCompare [sampleEvents] 0 ''oldest'')) = map Some ks
        \<and> sorted (rev ks)"
    by blast
  from t [of "''alphabet''"] consistent_codeUnitCompare
  have c: "sorted_wrt (\<lambda>a b. codeUnitCompare (titleOrEmpty a) (titleOrEmpty b) \<le> 0)
        (fst (sortedEvents codeUnitCompare [sampleEvents] 0 ''alphabet'')
          ! snd (sortedEvents codeUnitCompare [sampleEvents] 0 ''alphabet''))"
    by blast
  from e a b c show ?thesis by (intro conjI)
qed

subsection \<open>The theme toggle\<close>

text \<open>
  Claim C10. \<open>toggleTheme\<close> sends \<open>light\<close> to \<open>dark\<close>, \<open>dark\<close> to \<open>system\<close> and every
  other value to \<open>light\<close>; three toggles from any of the three modes give the mode back.
\<close>

theorem C10_toggleTheme_cycle:
  "toggleTheme ''light'' = ''dark''
   \<and> toggleTheme ''dark'' = ''system''
   \<and> (\<forall>m. m \<noteq> ''light'' \<and> m \<noteq> ''dark'' \<longrightarrow> toggleTheme m = ''light'')
   \<and> (\<forall>m \<in> {''light'', ''dark'', ''system''}. toggleTheme (toggleTheme (toggleTheme m)) = m)"
  by (simp add: toggleTheme_def)

theorem C10_toggleTheme_cycle_witness:
  "toggleTheme ''system'' = ''light''
   \<and> toggleTheme (toggleTheme (toggleTheme ''system'')) = ''system''"
  using C10_toggleTheme_cycle by simp

end
